theory Spec2Isabelle
  imports Main
begin

section \<open>Python values, errors and strings\<close>

text \<open>
  The search expression handed to \<^verbatim>\<open>FilesAPI.find\<close> is a Python list whose items are
  strings, integers, booleans, \<^verbatim>\<open>None\<close> or further lists. Floats are left out.
\<close>

datatype pyval = PNone | PStr string | PInt int | PBool bool | PList "pyval list"

text \<open>
  Every \<^verbatim>\<open>raise\<close> of \<^verbatim>\<open>files.py\<close> and of the built-ins it calls is a value.
  \<^verbatim>\<open>NextcloudException status_code reason info\<close>: the status code is \<open>None\<close> where
  the source leaves it to the default of the exception class (\<^verbatim>\<open>exceptions.py\<close>).
\<close>

datatype error =
    NextcloudException "int option" string string
  | KeyError
  | TypeError
  | ValueError
  | IndexError
  | ExpatError

text \<open>\<^verbatim>\<open>xml.etree.ElementTree.Element\<close>: tag, attributes, text, children in order.\<close>

datatype Element =
  Element (tag: string) (attrib: "(string \<times> string) list")
    (el_text: "string option") (children: "Element list")

text \<open>\<^verbatim>\<open>str(n)\<close> for an integer: decimal digits, a minus sign when negative.\<close>

fun nat_digits :: "nat \<Rightarrow> string" where
  "nat_digits n =
     (if n < 10 then [''0123456789'' ! n]
      else nat_digits (n div 10) @ [''0123456789'' ! (n mod 10)])"

declare nat_digits.simps [simp del]

definition int_str :: "int \<Rightarrow> string" where
  "int_str i = (if i < 0 then CHR ''-'' # nat_digits (nat (- i)) else nat_digits (nat i))"

text \<open>\<^verbatim>\<open>sep.join(xs)\<close>\<close>

fun join_with :: "string \<Rightarrow> string list \<Rightarrow> string" where
  "join_with sep [] = []"
| "join_with sep [x] = x"
| "join_with sep (x # y # ys) = x @ sep @ join_with sep (y # ys)"

text \<open>
  \<^verbatim>\<open>repr(v)\<close> and \<^verbatim>\<open>str(v)\<close>. The \<^verbatim>\<open>repr\<close> of a string is written with single quotes
  and no escapes, which is what Python prints for a string free of quotes, backslashes
  and control characters.
\<close>

fun py_repr :: "pyval \<Rightarrow> string" where
  "py_repr PNone = ''None''"
| "py_repr (PStr s) = [CHR 0x27] @ s @ [CHR 0x27]"
| "py_repr (PInt i) = int_str i"
| "py_repr (PBool b) = (if b then ''True'' else ''False'')"
| "py_repr (PList xs) = ''['' @ join_with '', '' (map py_repr xs) @ '']''"

definition py_str :: "pyval \<Rightarrow> string" where
  "py_str v = (case v of PStr s \<Rightarrow> s | _ \<Rightarrow> py_repr v)"

text \<open>\<^verbatim>\<open>s.lstrip("/")\<close>, \<^verbatim>\<open>s.rstrip("/")\<close>, \<^verbatim>\<open>s.startswith(p)\<close>, \<^verbatim>\<open>s.endswith(p)\<close>.\<close>

definition lstrip :: "char \<Rightarrow> string \<Rightarrow> string" where
  "lstrip c s = dropWhile (\<lambda>x. x = c) s"

definition rstrip :: "char \<Rightarrow> string \<Rightarrow> string" where
  "rstrip c s = rev (dropWhile (\<lambda>x. x = c) (rev s))"

definition startswith :: "string \<Rightarrow> string \<Rightarrow> bool" where
  "startswith s p = (take (length p) s = p)"

definition endswith :: "string \<Rightarrow> string \<Rightarrow> bool" where
  "endswith s p = startswith (rev s) (rev p)"

text \<open>\<^verbatim>\<open>s.rsplit("/", maxsplit=1)[-1]\<close>: what follows the last slash, all of \<open>s\<close> when it has none.\<close>

definition rsplit_last :: "char \<Rightarrow> string \<Rightarrow> string" where
  "rsplit_last c s = rev (takeWhile (\<lambda>x. x \<noteq> c) (rev s))"

text \<open>\<^verbatim>\<open>s.find(sub) != -1\<close>\<close>

fun contains :: "string \<Rightarrow> string \<Rightarrow> bool" where
  "contains [] sub = (sub = [])"
| "contains (c # cs) sub = (startswith (c # cs) sub \<or> contains cs sub)"

text \<open>
  \<^verbatim>\<open>s.replace(old, new)\<close>: every non-overlapping occurrence, left to right. The counter
  is the number of characters of a matched occurrence still to be skipped.
\<close>

fun replace_from :: "string \<Rightarrow> string \<Rightarrow> nat \<Rightarrow> string \<Rightarrow> string" where
  "replace_from old new k [] = (if old = [] then new else [])"
| "replace_from old new (Suc k) (c # cs) = replace_from old new k cs"
| "replace_from old new 0 (c # cs) =
     (if old = [] then new @ c # replace_from old new 0 cs
      else if startswith (c # cs) old then new @ replace_from old new (length old - 1) cs
      else c # replace_from old new 0 cs)"

definition replace :: "string \<Rightarrow> string \<Rightarrow> string \<Rightarrow> string" where
  "replace s old new = replace_from old new 0 s"

section \<open>Search query compiler\<close>

text \<open>\<^verbatim>\<open>SEARCH_PROPERTIES_MAP\<close>, with the keys as the source spells them.\<close>

definition SEARCH_PROPERTIES_MAP :: "string \<rightharpoonup> string" where
  "SEARCH_PROPERTIES_MAP =
     [''name:'' \<mapsto> ''d:displayname'',
      ''mime'' \<mapsto> ''d:getcontenttype'',
      ''last_modified'' \<mapsto> ''d:getlastmodified'',
      ''size'' \<mapsto> ''oc:size'',
      ''favorite'' \<mapsto> ''oc:favorite'',
      ''fileid'' \<mapsto> ''oc:fileid'']"

text \<open>\<^verbatim>\<open>req.pop(0)\<close>: IndexError on an empty list.\<close>

definition pop0 :: "pyval list \<Rightarrow> error + (pyval \<times> pyval list)" where
  "pop0 req = (case req of [] \<Rightarrow> Inl IndexError | x # xs \<Rightarrow> Inr (x, xs))"

lemma pop0_length: "pop0 req = Inr (x, r) \<Longrightarrow> length req = Suc (length r)"
  by (auto simp: pop0_def split: list.splits)

text \<open>
  \<^verbatim>\<open>SEARCH_PROPERTIES_MAP[k]\<close>: a list is unhashable (TypeError); any other key that is
  not in the table is a KeyError.
\<close>

definition search_property :: "pyval \<Rightarrow> error + string" where
  "search_property k =
     (case k of
        PList _ \<Rightarrow> Inl TypeError
      | PStr s \<Rightarrow> (case SEARCH_PROPERTIES_MAP s of None \<Rightarrow> Inl KeyError | Some p \<Rightarrow> Inr p)
      | _ \<Rightarrow> Inl KeyError)"

text \<open>\<^verbatim>\<open>v in ("or", "and")\<close>\<close>

definition is_or_and :: "pyval \<Rightarrow> bool" where
  "is_or_and v = (v = PStr ''or'' \<or> v = PStr ''and'')"

text \<open>
  \<^verbatim>\<open>ElementTree.SubElement(parent, tag)\<close> appends a new child to \<open>parent\<close> and returns it;
  the source then fills the child in place. The model builds the child first and
  appends it when it is complete: the child's position among its siblings is the same.
\<close>

definition new_element :: "string \<Rightarrow> Element" where
  "new_element t = Element t [] None []"

definition append_child :: "Element \<Rightarrow> Element \<Rightarrow> Element" where
  "append_child parent child =
     Element (tag parent) (attrib parent) (el_text parent) (children parent @ [child])"

definition set_text :: "Element \<Rightarrow> string \<Rightarrow> Element" where
  "set_text el t = Element (tag el) (attrib el) (Some t) (children el)"

text \<open>
  The two local functions of \<^verbatim>\<open>_build_search_req\<close>. Both work on the shared list
  \<^verbatim>\<open>req\<close>, which they consume from the front; the model passes the list in and returns
  what is left of it, beside the parent element with the new clause appended.
  \<^verbatim>\<open>val=None\<close> is \<open>PNone\<close>.
\<close>

function add_value :: "Element \<Rightarrow> pyval list \<Rightarrow> pyval \<Rightarrow> error + (Element \<times> pyval list)"
  and process_or_and :: "Element \<Rightarrow> pyval list \<Rightarrow> string \<Rightarrow> error + (Element \<times> pyval list)"
where
  "process_or_and xml_element req or_and =
     (case add_value (new_element (''d:'' @ or_and)) req PNone of
        Inl e \<Rightarrow> Inl e
      | Inr (root1, req1) \<Rightarrow>
          (case add_value root1 req1 PNone of
             Inl e \<Rightarrow> Inl e
           | Inr (root2, req2) \<Rightarrow> Inr (append_child xml_element root2, req2)))"
| "add_value xml_element req val =
     (case (if val = PNone then pop0 req else Inr (val, req)) of
        Inl e \<Rightarrow> Inl e
      | Inr (first_val, req1) \<Rightarrow>
          if is_or_and first_val then process_or_and xml_element req1 (py_str first_val)
          else
            (case pop0 req1 of
               Inl e \<Rightarrow> Inl e
             | Inr (field, req2) \<Rightarrow>
                 (case search_property field of
                    Inl e \<Rightarrow> Inl e
                  | Inr prop_name \<Rightarrow>
                      (case pop0 req2 of
                         Inl e \<Rightarrow> Inl e
                       | Inr (v, req3) \<Rightarrow>
                           Inr (append_child xml_element
                                  (append_child
                                     (append_child (new_element (''d:'' @ py_str first_val))
                                        (append_child (new_element ''d:prop'')
                                           (new_element prop_name)))
                                     (set_text (new_element ''d:literal'') (py_str v))),
                                req3)))))"
  by pat_completeness auto

termination
proof -
  have shrinks:
    "add_value_process_or_and_dom (Inl (el, req, val)) \<Longrightarrow>
       add_value el req val = Inr (c, r) \<Longrightarrow> length r \<le> length req"
    "add_value_process_or_and_dom (Inr (el', req', oa)) \<Longrightarrow>
       process_or_and el' req' oa = Inr (c', r') \<Longrightarrow> length r' \<le> length req'"
    for el req val c r el' req' oa c' r'
  proof (induction el req val and el' req' oa arbitrary: c r and c' r'
         rule: add_value_process_or_and.pinduct)
    case (1 xml_element req or_and)
    then show ?case
      by (fastforce simp: process_or_and.psimps split: sum.splits prod.splits)
  next
    case (2 xml_element req val)
    then show ?case
      by (auto simp: add_value.psimps split: sum.splits prod.splits if_splits
          dest!: pop0_length) fastforce+
  qed
  show ?thesis
    by (relation "measure (\<lambda>x. case x of
            Inl (el, req, val) \<Rightarrow> 3 * length req + (if val = PNone then 0 else 2)
          | Inr (el, req, oa) \<Rightarrow> 3 * length req + 1)")
       (auto dest!: shrinks(1) pop0_length split: if_splits)
qed

declare add_value.simps [simp del] process_or_and.simps [simp del]

lemma add_value_shrinks:
  "add_value el req val = Inr (c, r) \<Longrightarrow> length r \<le> length req"
  "process_or_and el req oa = Inr (c, r) \<Longrightarrow> length r \<le> length req"
proof (induction el req val and el req oa arbitrary: c r and c r
       rule: add_value_process_or_and.induct)
  case (1 xml_element req or_and)
  then show ?case
    by (fastforce simp: process_or_and.simps split: sum.splits prod.splits)
next
  case (2 xml_element req val)
  then show ?case
    by (auto simp: add_value.simps split: sum.splits prod.splits if_splits
        dest!: pop0_length) fastforce+
qed

text \<open>
  \<^verbatim>\<open>_build_search_req(xml_element_where, req)\<close>: the \<^verbatim>\<open>while len(req)\<close> loop. It returns
  the \<^verbatim>\<open>d:where\<close> element with one child per top-level clause.
\<close>

function build_search_req :: "Element \<Rightarrow> pyval list \<Rightarrow> error + Element" where
  "build_search_req xml_element_where req =
     (if req = [] then Inr xml_element_where
      else
        (case pop0 req of
           Inl e \<Rightarrow> Inl e
         | Inr (where_part, req1) \<Rightarrow>
             (case (if is_or_and where_part
                    then process_or_and xml_element_where req1 (py_str where_part)
                    else add_value xml_element_where req1 where_part) of
                Inl e \<Rightarrow> Inl e
              | Inr (xml_element_where', req2) \<Rightarrow> build_search_req xml_element_where' req2)))"
  by pat_completeness auto

termination
  apply (relation "measure (\<lambda>(el, req). length req)")
    apply (auto dest!: add_value_shrinks pop0_length split: if_splits)
  done

declare build_search_req.simps [simp del]

section \<open>File nodes\<close>

text \<open>
  A \<^verbatim>\<open>datetime\<close> is the instant it denotes, in seconds from the epoch:
  \<^verbatim>\<open>datetime(1970, 1, 1)\<close> is 0.
\<close>

type_synonym datetime = int

text \<open>\<^verbatim>\<open>FsNodeInfo\<close> and \<^verbatim>\<open>FsNode\<close>; the field \<^verbatim>\<open>size\<close> is \<open>size'\<close>.\<close>

record FsNodeInfo =
  nc_id :: string
  fileid :: int
  etag :: string
  size' :: int
  content_length :: int
  last_modified :: datetime
  permissions :: string
  favorite :: bool

record FsNode =
  user :: string
  path :: string
  name :: string
  info :: FsNodeInfo

text \<open>\<^verbatim>\<open>FsNode(user=..., path=..., name=...)\<close> with no keyword arguments, as \<^verbatim>\<open>files.py\<close> calls it.\<close>

definition FsNode_init :: "string \<Rightarrow> string \<Rightarrow> string \<Rightarrow> FsNode" where
  "FsNode_init usr pth nm =
     \<lparr>user = usr, path = pth, name = nm,
      info = \<lparr>nc_id = '''', fileid = 0, etag = '''', size' = 0, content_length = 0,
              last_modified = 0, permissions = '''', favorite = False\<rparr>\<rparr>"

text \<open>
  The property \<^verbatim>\<open>last_modified\<close>. Its setter takes a string or a datetime; a string
  goes through \<^verbatim>\<open>email.utils.parsedate_to_datetime\<close>, a library function taken as the
  parameter \<open>parsedate\<close>: \<open>None\<close> is the ValueError it raises on a string that is not
  a date.
\<close>

definition last_modified_setter ::
  "(string \<Rightarrow> datetime option) \<Rightarrow> FsNode \<Rightarrow> string + datetime \<Rightarrow> error + FsNode" where
  "last_modified_setter parsedate self v =
     (case v of
        Inl s \<Rightarrow>
          (case parsedate s of
             None \<Rightarrow> Inl ValueError
           | Some d \<Rightarrow> Inr (self\<lparr>info := (info self)\<lparr>last_modified := d\<rparr>\<rparr>))
      | Inr d \<Rightarrow> Inr (self\<lparr>info := (info self)\<lparr>last_modified := d\<rparr>\<rparr>))"


definition is_dir :: "FsNode \<Rightarrow> bool" where
  "is_dir self = endswith (path self) ''/''"

definition full_path :: "FsNode \<Rightarrow> string" where
  "full_path self =
     (if user self \<noteq> [] then user self @ ''/'' @ lstrip CHR ''/'' (path self) else path self)"

section \<open>Record parser\<close>

text \<open>
  \<^verbatim>\<open>int(s)\<close> for a string: surrounding whitespace is dropped, then an optional sign and
  decimal digits, where single underscores may stand between digits. \<open>None\<close> is the
  ValueError. A character stands for a code point below 256. The whitespace that
  \<^verbatim>\<open>int\<close> drops there is the space, the controls 0x09 to 0x0D, and the two code points
  above 127 that are Unicode whitespace, 0x85 and 0xA0, which it turns into spaces before
  it parses; the separators 0x1C to 0x1F are not dropped. The only decimal digits below
  256 are the ASCII ones.
\<close>

definition is_space :: "char \<Rightarrow> bool" where
  "is_space c = (c \<in> set [CHR '' '', CHR 0x09, CHR 0x0A, CHR 0x0B, CHR 0x0C, CHR 0x0D,
                            CHR 0x85, CHR 0xA0])"

definition is_digit :: "char \<Rightarrow> bool" where
  "is_digit c = (c \<in> set ''0123456789'')"

definition digit_val :: "char \<Rightarrow> nat" where
  "digit_val c = of_char c - 48"

fun parse_digits :: "nat \<Rightarrow> string \<Rightarrow> nat option" where
  "parse_digits acc [] = Some acc"
| "parse_digits acc (c # cs) =
     (if is_digit c then parse_digits (10 * acc + digit_val c) cs
      else if c = CHR ''_'' \<and> cs \<noteq> [] \<and> is_digit (hd cs) then parse_digits acc cs
      else None)"

definition py_int :: "string \<Rightarrow> int option" where
  "py_int s =
     (let t = rev (dropWhile is_space (rev (dropWhile is_space s)));
          neg = (t \<noteq> [] \<and> hd t = CHR ''-'');
          body = (if t \<noteq> [] \<and> (hd t = CHR ''-'' \<or> hd t = CHR ''+'') then tl t else t)
      in if body = [] \<or> \<not> is_digit (hd body) then None
         else map_option (\<lambda>n. if neg then - int n else int n) (parse_digits 0 body))"

section \<open>Multistatus documents, session and transport\<close>

text \<open>
  What \<^verbatim>\<open>xmltodict.parse\<close> makes of a multistatus body. An element that occurs once
  under its parent comes out as one mapping, an element that is repeated as a list of
  them; the source tells the two apart with \<^verbatim>\<open>isinstance\<close>.
\<close>

datatype 'a one_or_many = One 'a | Many "'a list"

text \<open>\<^verbatim>\<open>x if isinstance(x, list) else [x]\<close>\<close>

definition as_list :: "'a one_or_many \<Rightarrow> 'a list" where
  "as_list x = (case x of One a \<Rightarrow> [a] | Many as \<Rightarrow> as)"

text \<open>
  One \<^verbatim>\<open>d:propstat\<close> block and one \<^verbatim>\<open>d:response\<close> entry. A key the source reads with
  \<^verbatim>\<open>.get\<close> or with \<^verbatim>\<open>[...]\<close> may be missing: \<open>None\<close>. Property values are the
  text of their elements.
\<close>

record propstat =
  d_status :: "string option"
  d_prop :: "(string \<rightharpoonup> string) option"

record dav_response =
  d_href :: "string option"
  d_propstat :: "propstat one_or_many option"

text \<open>
  The parsed document has one root: \<^verbatim>\<open>d:error\<close> with its \<^verbatim>\<open>s:exception\<close> and
  \<^verbatim>\<open>s:message\<close> (each may be missing), \<^verbatim>\<open>d:multistatus\<close> with its \<^verbatim>\<open>d:response\<close>
  entries (the key may be missing), or any other root.
\<close>

datatype dav_document =
    DError "string option" "string option"
  | DMultistatus "dav_response one_or_many option"
  | DOther

text \<open>\<^verbatim>\<open>httpx.Response\<close>: the status code and the body text (\<^verbatim>\<open>text\<close> is \<open>text'\<close>).\<close>

record Response =
  status_code :: int
  text' :: string

text \<open>
  The session and the collaborators that are not part of \<^verbatim>\<open>files.py\<close>.
  \<^item> \<open>session_user\<close>, \<open>dav_url_suffix\<close>: \<^verbatim>\<open>self._session.user\<close> and
    \<^verbatim>\<open>self._session.cfg.dav_url_suffix\<close>.
  \<^item> \<open>dav\<close>: \<^verbatim>\<open>self._session.dav(method, path, data, headers)\<close>. The platform behind
    the transport has a state of type \<open>'s\<close>, which every request may read and change.
    The request body is handed over as the element tree (\<^verbatim>\<open>_element_tree_as_str\<close> only
    serialises it).
  \<^item> \<open>is_error\<close>, \<open>phrase\<close>: which status codes \<^verbatim>\<open>check_error\<close> rejects and the
    reason it gives.
  \<^item> \<open>unquote\<close>: \<^verbatim>\<open>urllib.parse.unquote\<close>.
  \<^item> \<open>parsedate_to_datetime\<close>: \<^verbatim>\<open>email.utils.parsedate_to_datetime\<close>, \<open>None\<close> for
    its ValueError.
  \<^item> \<open>xmltodict_parse\<close>: \<^verbatim>\<open>xmltodict.parse\<close>, \<open>None\<close> when the text is not XML.
\<close>

record 's Session =
  session_user :: string
  dav_url_suffix :: string
  dav :: "'s \<Rightarrow> string \<Rightarrow> string \<Rightarrow> Element option \<Rightarrow> (string \<times> string) list \<Rightarrow> Response \<times> 's"
  is_error :: "int \<Rightarrow> bool"
  phrase :: "int \<Rightarrow> string"
  unquote :: "string \<Rightarrow> string"
  parsedate_to_datetime :: "string \<Rightarrow> datetime option"
  xmltodict_parse :: "string \<Rightarrow> dav_document option"

text \<open>
  Modelled from the spec: \<^verbatim>\<open>check_error\<close> of \<^verbatim>\<open>exceptions.py\<close>, which is not among the
  sources. It raises the remote error carrying the HTTP status and the diagnostic label
  when the status code indicates failure, and returns otherwise.
\<close>

definition check_error :: "'s Session \<Rightarrow> int \<Rightarrow> string \<Rightarrow> error + unit" where
  "check_error sess code req_info =
     (if is_error sess code then Inl (NextcloudException (Some code) (phrase sess code) req_info)
      else Inr ())"

text \<open>
  The body of the loop of \<^verbatim>\<open>_parse_record\<close> reads each known key that is present.
  \<open>int_prop\<close> is \<^verbatim>\<open>if k in prop_keys: fs_node.info[...] = int(prop[k])\<close>, \<open>str_prop\<close>
  the same without \<^verbatim>\<open>int\<close>, \<open>date_prop\<close> the assignment to \<^verbatim>\<open>last_modified\<close> inside
  \<^verbatim>\<open>try ... except ValueError: pass\<close>.
\<close>

definition int_prop ::
  "(string \<rightharpoonup> string) \<Rightarrow> string \<Rightarrow> (int \<Rightarrow> FsNodeInfo \<Rightarrow> FsNodeInfo) \<Rightarrow> FsNode \<Rightarrow> error + FsNode" where
  "int_prop prop k upd fs_node =
     (case prop k of
        None \<Rightarrow> Inr fs_node
      | Some v \<Rightarrow>
          (case py_int v of
             None \<Rightarrow> Inl ValueError
           | Some i \<Rightarrow> Inr (fs_node\<lparr>info := upd i (info fs_node)\<rparr>)))"

definition str_prop ::
  "(string \<rightharpoonup> string) \<Rightarrow> string \<Rightarrow> (string \<Rightarrow> FsNodeInfo \<Rightarrow> FsNodeInfo) \<Rightarrow> FsNode \<Rightarrow> FsNode" where
  "str_prop prop k upd fs_node =
     (case prop k of None \<Rightarrow> fs_node | Some v \<Rightarrow> fs_node\<lparr>info := upd v (info fs_node)\<rparr>)"

definition date_prop ::
  "(string \<Rightarrow> datetime option) \<Rightarrow> (string \<rightharpoonup> string) \<Rightarrow> FsNode \<Rightarrow> error + FsNode" where
  "date_prop parsedate prop fs_node =
     (case prop ''d:getlastmodified'' of
        None \<Rightarrow> Inr fs_node
      | Some v \<Rightarrow>
          (case last_modified_setter parsedate fs_node (Inl v) of
             Inl ValueError \<Rightarrow> Inr fs_node
           | Inl e \<Rightarrow> Inl e
           | Inr fs_node' \<Rightarrow> Inr fs_node'))"

text \<open>Sequencing: an error ends the run.\<close>

definition then_do :: "error + 'a \<Rightarrow> ('a \<Rightarrow> error + 'b) \<Rightarrow> error + 'b" where
  "then_do r f = (case r of Inl e \<Rightarrow> Inl e | Inr x \<Rightarrow> f x)"

text \<open>
  One iteration of the loop of \<^verbatim>\<open>_parse_record\<close>: a block whose status does not contain
  \<^verbatim>\<open>200 OK\<close> is skipped; \<^verbatim>\<open>prop_stat["d:prop"]\<close> is a KeyError when the key is missing.
\<close>

definition read_prop_stat ::
  "(string \<Rightarrow> datetime option) \<Rightarrow> FsNode \<Rightarrow> propstat \<Rightarrow> error + FsNode" where
  "read_prop_stat parsedate fs_node prop_stat =
     (if \<not> contains (case d_status prop_stat of None \<Rightarrow> '''' | Some s \<Rightarrow> s) ''200 OK''
      then Inr fs_node
      else
        (case d_prop prop_stat of
           None \<Rightarrow> Inl KeyError
         | Some prop \<Rightarrow>
             then_do (Inr (str_prop prop ''oc:id'' (\<lambda>v i. i\<lparr>nc_id := v\<rparr>) fs_node)) (\<lambda>n1.
             then_do (int_prop prop ''oc:fileid'' (\<lambda>v i. i\<lparr>fileid := v\<rparr>) n1) (\<lambda>n2.
             then_do (int_prop prop ''oc:size'' (\<lambda>v i. i\<lparr>size' := v\<rparr>) n2) (\<lambda>n3.
             then_do (int_prop prop ''d:getcontentlength'' (\<lambda>v i. i\<lparr>content_length := v\<rparr>) n3) (\<lambda>n4.
             then_do (Inr (str_prop prop ''d:getetag'' (\<lambda>v i. i\<lparr>etag := v\<rparr>) n4)) (\<lambda>n5.
             then_do (date_prop parsedate prop n5) (\<lambda>n6.
             then_do (Inr (str_prop prop ''oc:permissions'' (\<lambda>v i. i\<lparr>permissions := v\<rparr>) n6)) (\<lambda>n7.
             int_prop prop ''oc:favorite'' (\<lambda>v i. i\<lparr>favorite := (v \<noteq> 0)\<rparr>) n7)))))))))"

fun parse_record_loop ::
  "(string \<Rightarrow> datetime option) \<Rightarrow> FsNode \<Rightarrow> propstat list \<Rightarrow> error + FsNode" where
  "parse_record_loop parsedate fs_node [] = Inr fs_node"
| "parse_record_loop parsedate fs_node (prop_stat # rest) =
     (case read_prop_stat parsedate fs_node prop_stat of
        Inl e \<Rightarrow> Inl e
      | Inr fs_node' \<Rightarrow> parse_record_loop parsedate fs_node' rest)"

definition parse_record ::
  "(string \<Rightarrow> datetime option) \<Rightarrow> propstat list \<Rightarrow> string \<Rightarrow> string \<Rightarrow> string \<Rightarrow> error + FsNode" where
  "parse_record parsedate prop_stats usr obg_rel_path obj_name =
     parse_record_loop parsedate (FsNode_init usr obg_rel_path obj_name) prop_stats"

text \<open>\<^verbatim>\<open>_dav_get_obj_path(user, path="")\<close>\<close>

definition dav_get_obj_path :: "string \<Rightarrow> string \<Rightarrow> string" where
  "dav_get_obj_path usr pth =
     ''/files'' @ (if usr \<noteq> [] then ''/'' @ usr else []) @
     (if pth \<noteq> [] then ''/'' @ lstrip CHR ''/'' pth else [])"

definition PROPFIND_PROPERTIES :: "string list" where
  "PROPFIND_PROPERTIES =
     [''d:resourcetype'', ''d:getlastmodified'', ''d:getcontentlength'', ''d:getetag'',
      ''oc:size'', ''oc:id'', ''oc:fileid'', ''oc:downloadURL'', ''oc:dDC'',
      ''oc:permissions'', ''oc:checksums'', ''oc:share-types'', ''oc:favorite'',
      ''nc:is-encrypted'', ''nc:lock'', ''nc:lock-owner-displayname'', ''nc:lock-owner'',
      ''nc:lock-owner-type'', ''nc:lock-owner-editor'', ''nc:lock-time'',
      ''nc:lock-timeout'']"

definition dav_namespaces :: "(string \<times> string) list" where
  "dav_namespaces =
     [(''xmlns:d'', ''DAV:''), (''xmlns:oc'', ''http://owncloud.org/ns''),
      (''xmlns:nc'', ''http://nextcloud.org/ns'')]"

text \<open>
  The loop \<^verbatim>\<open>for index, v in enumerate(result): if ...: del result[index]; break\<close>.
\<close>

fun del_first :: "('a \<Rightarrow> bool) \<Rightarrow> 'a list \<Rightarrow> 'a list" where
  "del_first P [] = []"
| "del_first P (v # vs) = (if P v then vs else v # del_first P vs)"

text \<open>
  The local variables \<^verbatim>\<open>obj_full_path\<close>, \<^verbatim>\<open>obj_name\<close> and \<^verbatim>\<open>obg_rel_path\<close> of the loop
  of \<^verbatim>\<open>_parse_records\<close>, as functions of the entry.
\<close>

definition obj_full_path :: "'s Session \<Rightarrow> dav_response \<Rightarrow> string" where
  "obj_full_path sess record =
     unquote sess (case d_href record of None \<Rightarrow> '''' | Some h \<Rightarrow> h)"

definition obj_name :: "'s Session \<Rightarrow> dav_response \<Rightarrow> string" where
  "obj_name sess record = rsplit_last CHR ''/'' (rstrip CHR ''/'' (obj_full_path sess record))"

definition obg_rel_path :: "'s Session \<Rightarrow> string \<Rightarrow> dav_response \<Rightarrow> string" where
  "obg_rel_path sess usr record =
     lstrip CHR ''/''
       (replace (obj_full_path sess record)
          (dav_url_suffix sess @ dav_get_obj_path usr '''') '''')"

text \<open>\<^verbatim>\<open>result[0] if result else None\<close>\<close>

definition first_or_none :: "'a list \<Rightarrow> 'a option" where
  "first_or_none result = (case result of [] \<Rightarrow> None | x # _ \<Rightarrow> Some x)"

text \<open>
  The local variable \<^verbatim>\<open>full_path\<close> of \<^verbatim>\<open>_listdir\<close>: what a node's full path is compared
  with when the queried directory itself is to be left out.
\<close>

definition listdir_full_path :: "string \<Rightarrow> string \<Rightarrow> string" where
  "listdir_full_path usr pth =
     (if usr \<noteq> [] then rstrip CHR ''/'' (usr @ ''/'' @ pth) else rstrip CHR ''/'' pth)"

text \<open>\<^verbatim>\<open>result.append(n)\<close>, when the rest of the loop raises nothing.\<close>

definition append_node ::
  "FsNode \<Rightarrow> (error + FsNode list) \<times> 's \<Rightarrow> (error + FsNode list) \<times> 's" where
  "append_node n r = (case r of (Inl e, s) \<Rightarrow> (Inl e, s) | (Inr ns, s) \<Rightarrow> (Inr (n # ns), s))"

text \<open>
  \<^verbatim>\<open>_parse_records\<close>, \<^verbatim>\<open>by_path\<close>, \<^verbatim>\<open>listdir\<close>, \<^verbatim>\<open>_listdir\<close> (here \<open>listdir_inner\<close>) and
  \<^verbatim>\<open>_lf_parse_webdav_records\<close> call one another: a favorites decode looks entries up
  with \<^verbatim>\<open>by_path\<close>, which lists and decodes with \<^verbatim>\<open>favorite=False\<close>. Each function takes
  the platform state and returns the new one beside its result; the default arguments
  of the source are written out at each call.
\<close>

function parse_records ::
    "'s Session \<Rightarrow> dav_response list \<Rightarrow> string \<Rightarrow> bool \<Rightarrow> 's \<Rightarrow> (error + FsNode list) \<times> 's"
  and by_path :: "'s Session \<Rightarrow> string \<Rightarrow> 's \<Rightarrow> (error + FsNode option) \<times> 's"
  and listdir :: "'s Session \<Rightarrow> string \<Rightarrow> bool \<Rightarrow> bool \<Rightarrow> 's \<Rightarrow> (error + FsNode list) \<times> 's"
  and listdir_inner ::
    "'s Session \<Rightarrow> string \<Rightarrow> string \<Rightarrow> string list \<Rightarrow> bool \<Rightarrow> 's \<Rightarrow> (error + FsNode list) \<times> 's"
  and lf_parse_webdav_records ::
    "'s Session \<Rightarrow> Response \<Rightarrow> string \<Rightarrow> string \<Rightarrow> bool \<Rightarrow> 's \<Rightarrow> (error + FsNode list) \<times> 's"
where
  "parse_records sess [] usr fav s = (Inr [], s)"
| "parse_records sess (record # rest) usr fav s =
     (if obj_name sess record = [] then parse_records sess rest usr fav s
      else
        (case d_propstat record of
           None \<Rightarrow> (Inl KeyError, s)
         | Some propstat \<Rightarrow>
             (case parse_record (parsedate_to_datetime sess) (as_list propstat) usr
                     (obg_rel_path sess usr record) (obj_name sess record) of
                Inl e \<Rightarrow> (Inl e, s)
              | Inr fs_node \<Rightarrow>
                  if fav \<and> fileid (info fs_node) = 0 then
                    (case by_path sess (path fs_node) s of
                       (Inl e, s1) \<Rightarrow> (Inl e, s1)
                     | (Inr None, s1) \<Rightarrow> parse_records sess rest usr fav s1
                     | (Inr (Some fs_node'), s1) \<Rightarrow>
                         append_node (fs_node'\<lparr>info := (info fs_node')\<lparr>favorite := True\<rparr>\<rparr>)
                           (parse_records sess rest usr fav s1))
                  else if fileid (info fs_node) \<noteq> 0 then
                    append_node fs_node (parse_records sess rest usr fav s)
                  else parse_records sess rest usr fav s)))"
| "by_path sess pth s =
     (case listdir sess pth False False s of
        (Inl e, s1) \<Rightarrow> (Inl e, s1)
      | (Inr result, s1) \<Rightarrow> (Inr (first_or_none result), s1))"
| "listdir sess pth exclude_self root s =
     listdir_inner sess (if root then '''' else session_user sess) pth PROPFIND_PROPERTIES
       exclude_self s"
| "listdir_inner sess usr pth properties exclude_self s =
     (let root = Element ''d:propfind'' dav_namespaces None
                   [Element ''d:prop'' [] None (map new_element properties)];
          (webdav_response, s1) = dav sess s ''PROPFIND'' (dav_get_obj_path usr pth) (Some root) [];
          request_info = ''list: '' @ usr @ '', '' @ pth @ '', '' @ py_repr (PList (map PStr properties))
      in case lf_parse_webdav_records sess webdav_response usr request_info False s1 of
           (Inl e, s2) \<Rightarrow> (Inl e, s2)
         | (Inr result, s2) \<Rightarrow>
             if exclude_self then
               (Inr (del_first
                       (\<lambda>v. rstrip CHR ''/'' (full_path v) = listdir_full_path usr pth)
                       result), s2)
             else (Inr result, s2))"
| "lf_parse_webdav_records sess webdav_res usr req_info fav s =
     (case check_error sess (status_code webdav_res) req_info of
        Inl e \<Rightarrow> (Inl e, s)
      | Inr _ \<Rightarrow>
          if status_code webdav_res \<noteq> 207 then
            (Inl (NextcloudException (Some (status_code webdav_res))
                    ''Response is not a multistatus.'' req_info), s)
          else if text' webdav_res = [] then
            (Inl (NextcloudException (Some (status_code webdav_res)) ''Response is empty.'' req_info), s)
          else
            (case xmltodict_parse sess (text' webdav_res) of
               None \<Rightarrow> (Inl ExpatError, s)
             | Some (DError exc msg) \<Rightarrow>
                 (case exc of
                    None \<Rightarrow> (Inl KeyError, s)
                  | Some x \<Rightarrow>
                      (case msg of
                         None \<Rightarrow> (Inl KeyError, s)
                       | Some m \<Rightarrow>
                           (Inl (NextcloudException None
                                   (filter (\<lambda>c. c \<noteq> CHR 0x0A) (x @ '': '' @ m)) req_info), s)))
             | Some DOther \<Rightarrow> (Inl KeyError, s)
             | Some (DMultistatus response) \<Rightarrow>
                 parse_records sess (case response of None \<Rightarrow> [] | Some r \<Rightarrow> as_list r)
                   usr fav s))"
  by pat_completeness auto

termination
  apply (relation "inv_image (less_than <*lex*> less_than) (\<lambda>x. case x of
            Inl (Inl (sess, recs, usr, fav, s)) \<Rightarrow> (if fav then 5 else 0, length recs)
          | Inl (Inr _) \<Rightarrow> (4::nat, 0::nat)
          | Inr (Inl _) \<Rightarrow> (3, 0)
          | Inr (Inr (Inl _)) \<Rightarrow> (2, 0)
          | Inr (Inr (Inr (sess, res, usr, req_info, fav, s))) \<Rightarrow> (if fav then 6 else 1, 0))")
  apply (auto split: if_splits)
  done


declare parse_records.simps [simp del] by_path.simps [simp del] listdir.simps [simp del]
  listdir_inner.simps [simp del] lf_parse_webdav_records.simps [simp del]

text \<open>
  \<^verbatim>\<open>find(req, path="", depth=-1)\<close>, here \<open>find'\<close>. The request information is formatted after the
  compiler has emptied \<^verbatim>\<open>req\<close>, so the list prints as \<^verbatim>\<open>[]\<close>.
\<close>

definition find' ::
  "'s Session \<Rightarrow> pyval list \<Rightarrow> string \<Rightarrow> int \<Rightarrow> 's \<Rightarrow> (error + FsNode list) \<times> 's" where
  "find' sess req pth depth s =
     (let xml_select_prop = Element ''d:prop'' [] None (map new_element PROPFIND_PROPERTIES);
          href = (if startswith pth ''/'' then ''/files/'' @ session_user sess @ pth
                  else ''/files/'' @ session_user sess @ ''/'' @ pth);
          xml_from_scope =
            Element ''d:scope'' [] None
              [set_text (new_element ''d:href'') href,
               set_text (new_element ''d:depth'')
                 (if depth = - 1 then ''infinity'' else int_str depth)]
      in case build_search_req (new_element ''d:where'') req of
           Inl e \<Rightarrow> (Inl e, s)
         | Inr xml_where \<Rightarrow>
             (let root = Element ''d:searchrequest'' dav_namespaces None
                           [Element ''d:basicsearch'' [] None
                              [Element ''d:select'' [] None [xml_select_prop],
                               Element ''d:from'' [] None [xml_from_scope],
                               xml_where]];
                  (webdav_response, s1) =
                     dav sess s ''SEARCH'' '''' (Some root) [(''Content-Type'', ''text/xml'')];
                  request_info = ''find: '' @ session_user sess @ '', '' @ py_repr (PList [])
                                   @ '', '' @ pth @ '', '' @ int_str depth
              in lf_parse_webdav_records sess webdav_response (session_user sess)
                   request_info False s1))"

definition by_id :: "'s Session \<Rightarrow> int \<Rightarrow> 's \<Rightarrow> (error + FsNode option) \<times> 's" where
  "by_id sess fid s =
     (case find' sess [PStr ''eq'', PStr ''fileid'', PInt fid] '''' (- 1) s of
        (Inl e, s1) \<Rightarrow> (Inl e, s1)
      | (Inr result, s1) \<Rightarrow> (Inr (first_or_none result), s1))"

definition listfav :: "'s Session \<Rightarrow> 's \<Rightarrow> (error + FsNode list) \<times> 's" where
  "listfav sess s =
     (let root = Element ''oc:filter-files'' dav_namespaces None
                   [Element ''oc:filter-rules'' [] None
                      [set_text (new_element ''oc:favorite'') ''1'']];
          (webdav_response, s1) =
             dav sess s ''REPORT'' (dav_get_obj_path (session_user sess) '''') (Some root) [];
          request_info = ''listfav: '' @ session_user sess
      in case check_error sess (status_code webdav_response) request_info of
           Inl e \<Rightarrow> (Inl e, s1)
         | Inr _ \<Rightarrow>
             lf_parse_webdav_records sess webdav_response (session_user sess)
               request_info True s1)"

definition mkdir :: "'s Session \<Rightarrow> string \<Rightarrow> 's \<Rightarrow> (error + unit) \<times> 's" where
  "mkdir sess pth s =
     (let (response, s1) =
             dav sess s ''MKCOL'' (dav_get_obj_path (session_user sess) pth) None []
      in (check_error sess (status_code response)
            (''mkdir: user='' @ session_user sess @ '', path='' @ pth), s1))"

text \<open>
  \<^verbatim>\<open>pathlib.Path(path).parts\<close> on a POSIX system: the root (\<^verbatim>\<open>//\<close> for exactly two
  leading slashes, \<^verbatim>\<open>/\<close> for any other number) and then the components between
  slashes, without the empty ones and the dots. \<^verbatim>\<open>os.path.join(a, b)\<close> for two arguments.
\<close>

fun split_on :: "char \<Rightarrow> string \<Rightarrow> string list" where
  "split_on c [] = [[]]"
| "split_on c (x # xs) =
     (if x = c then [] # split_on c xs
      else (case split_on c xs of [] \<Rightarrow> [[x]] | w # ws \<Rightarrow> (x # w) # ws))"

definition path_parts :: "string \<Rightarrow> string list" where
  "path_parts pth =
     (if startswith pth ''//'' \<and> \<not> startswith pth ''///'' then [''//'']
      else if startswith pth ''/'' then [''/'']
      else [])
     @ filter (\<lambda>w. w \<noteq> [] \<and> w \<noteq> ''.'') (split_on CHR ''/'' pth)"

definition path_join :: "string \<Rightarrow> string \<Rightarrow> string" where
  "path_join a b =
     (if startswith b ''/'' then b
      else if a = [] \<or> endswith a ''/'' then a @ b
      else a @ ''/'' @ b)"

text \<open>
  \<^verbatim>\<open>makedirs(path, exist_ok=False)\<close>: the loop over the parts, \<open>p\<close> being \<^verbatim>\<open>_path\<close>.
\<close>

fun makedirs_loop ::
  "'s Session \<Rightarrow> bool \<Rightarrow> string \<Rightarrow> string list \<Rightarrow> 's \<Rightarrow> (error + unit) \<times> 's" where
  "makedirs_loop sess exist_ok p [] s = (Inr (), s)"
| "makedirs_loop sess exist_ok p (i # rest) s =
     (let p' = path_join p i
      in case mkdir sess p' s of
           (Inr _, s1) \<Rightarrow> makedirs_loop sess exist_ok p' rest s1
         | (Inl e, s1) \<Rightarrow>
             if \<not> exist_ok then (Inl e, s1)
             else
               (case e of
                  NextcloudException code reason req_info \<Rightarrow>
                    if code \<noteq> Some 405 then (Inl e, s1)
                    else makedirs_loop sess exist_ok p' rest s1
                | _ \<Rightarrow> (Inl e, s1)))"

definition makedirs :: "'s Session \<Rightarrow> string \<Rightarrow> bool \<Rightarrow> 's \<Rightarrow> (error + unit) \<times> 's" where
  "makedirs sess pth exist_ok s = makedirs_loop sess exist_ok '''' (path_parts pth) s"

section \<open>Search expressions as trees\<close>

text \<open>
  The list that \<^verbatim>\<open>_build_search_req\<close> accepts is the prefix form of a tree: a comparison
  is an operator, a field name and a literal, three items in a row; a compound is
  \<^verbatim>\<open>"and"\<close> or \<^verbatim>\<open>"or"\<close> followed by the items of its two operands. \<open>tokens\<close> writes
  a tree as such a list and \<open>clause_xml\<close> is the element the tree stands for.
\<close>

datatype SearchExpression =
    Comparison pyval string pyval
  | Compound string SearchExpression SearchExpression

fun tokens :: "SearchExpression \<Rightarrow> pyval list" where
  "tokens (Comparison oper field v) = [oper, PStr field, v]"
| "tokens (Compound or_and a b) = PStr or_and # tokens a @ tokens b"

fun well_formed :: "SearchExpression \<Rightarrow> bool" where
  "well_formed (Comparison oper field v) =
     (oper \<noteq> PNone \<and> \<not> is_or_and oper \<and> SEARCH_PROPERTIES_MAP field \<noteq> None)"
| "well_formed (Compound or_and a b) =
     (is_or_and (PStr or_and) \<and> well_formed a \<and> well_formed b)"

fun clause_xml :: "SearchExpression \<Rightarrow> Element" where
  "clause_xml (Comparison oper field v) =
     Element (''d:'' @ py_str oper) [] None
       [Element ''d:prop'' [] None [Element (the (SEARCH_PROPERTIES_MAP field)) [] None []],
        Element ''d:literal'' [] (Some (py_str v)) []]"
| "clause_xml (Compound or_and a b) =
     Element (''d:'' @ or_and) [] None [clause_xml a, clause_xml b]"

section \<open>An example platform\<close>

text \<open>
  A small platform for the account \<^verbatim>\<open>admin\<close>, on which the operations can be run.
  Its state is the list of the collections created so far: \<^verbatim>\<open>MKCOL\<close> answers 201 and
  records the path, or 405 when the path is already there. \<^verbatim>\<open>PROPFIND\<close> knows the
  directory \<^verbatim>\<open>docs\<close> with the file \<^verbatim>\<open>docs/a.txt\<close> in it, the listing of
  \<^verbatim>\<open>void.txt\<close> comes back without entries, every \<^verbatim>\<open>SEARCH\<close> finds that
  file, and the \<^verbatim>\<open>REPORT\<close> of the favorites names it by its path only; every other
  request is answered with 404. A response body is a short label that \<open>xmltodict_parse\<close> maps
  to the parsed document.
\<close>

definition ok_propstat :: "(string \<times> string) list \<Rightarrow> propstat" where
  "ok_propstat kvs = \<lparr>d_status = Some ''HTTP/1.1 200 OK'', d_prop = Some (map_of kvs)\<rparr>"

definition missing_propstat :: "(string \<times> string) list \<Rightarrow> propstat" where
  "missing_propstat kvs =
     \<lparr>d_status = Some ''HTTP/1.1 404 Not Found'', d_prop = Some (map_of kvs)\<rparr>"

definition docs_entry :: dav_response where
  "docs_entry =
     \<lparr>d_href = Some ''/remote.php/dav/files/admin/docs/'',
      d_propstat = Some (Many [ok_propstat [(''oc:fileid'', ''10'')],
                               missing_propstat [(''d:getcontentlength'', '''')]])\<rparr>"

definition a_txt_entry :: dav_response where
  "a_txt_entry =
     \<lparr>d_href = Some ''/remote.php/dav/files/admin/docs/a.txt'',
      d_propstat = Some (One (ok_propstat [(''oc:fileid'', ''11''),
                                           (''d:getcontentlength'', ''5'')]))\<rparr>"

definition a_txt_placeholder :: dav_response where
  "a_txt_placeholder =
     \<lparr>d_href = Some ''/remote.php/dav/files/admin/docs/a.txt'',
      d_propstat = Some (One (missing_propstat [(''oc:fileid'', '''')]))\<rparr>"

definition gone_placeholder :: dav_response where
  "gone_placeholder =
     \<lparr>d_href = Some ''/remote.php/dav/files/admin/gone.txt'',
      d_propstat = Some (One (missing_propstat [(''oc:fileid'', '''')]))\<rparr>"

definition void_placeholder :: dav_response where
  "void_placeholder =
     \<lparr>d_href = Some ''/remote.php/dav/files/admin/void.txt'',
      d_propstat = Some (One (missing_propstat [(''oc:fileid'', '''')]))\<rparr>"

definition root_entry :: dav_response where
  "root_entry =
     \<lparr>d_href = Some ''/remote.php/dav/files/admin/'',
      d_propstat = Some (One (ok_propstat [(''oc:fileid'', ''1'')]))\<rparr>"

definition example_response :: "int \<Rightarrow> string \<Rightarrow> Response" where
  "example_response code body = \<lparr>status_code = code, text' = body\<rparr>"

definition example_dav ::
  "string list \<Rightarrow> string \<Rightarrow> string \<Rightarrow> Element option \<Rightarrow> (string \<times> string) list
     \<Rightarrow> Response \<times> string list" where
  "example_dav s method pth body headers =
     (if method = ''MKCOL'' then
        (if pth \<in> set s then (example_response 405 '''', s)
         else (example_response 201 '''', s @ [pth]))
      else if method = ''PROPFIND'' \<and> pth = ''/files/admin/docs'' then
        (example_response 207 ''<docs>'', s)
      else if method = ''PROPFIND'' \<and> pth = ''/files/admin/docs/a.txt'' then
        (example_response 207 ''<a.txt>'', s)
      else if method = ''PROPFIND'' \<and> pth = ''/files/admin/void.txt'' then
        (example_response 207 ''<void>'', s)
      else if method = ''SEARCH'' then (example_response 207 ''<a.txt>'', s)
      else if method = ''REPORT'' then (example_response 207 ''<favorites>'', s)
      else (example_response 404 '''', s))"

definition example_session :: "string list Session" where
  "example_session =
     \<lparr>session_user = ''admin'',
      dav_url_suffix = ''/remote.php/dav'',
      dav = example_dav,
      is_error = (\<lambda>code. 400 \<le> code \<and> code < 600),
      phrase = (\<lambda>code. if code = 404 then ''Not Found''
                       else if code = 405 then ''Method Not Allowed'' else ''Error''),
      unquote = (\<lambda>h. h),
      parsedate_to_datetime =
        (\<lambda>d. if d = ''Thu, 01 Jan 1970 00:01:40 GMT'' then Some 100 else None),
      xmltodict_parse =
        map_of [(''<docs>'', DMultistatus (Some (Many [docs_entry, a_txt_entry]))),
                (''<a.txt>'', DMultistatus (Some (One a_txt_entry))),
                (''<favorites>'', DMultistatus (Some (One a_txt_placeholder))),
                (''<gone>'', DMultistatus (Some (One gone_placeholder))),
                (''<void>'', DMultistatus None),
                (''<error>'', DError (Some ''Sabre_DAV_Exception_BadRequest'')
                                (Some (''Invalid'' @ [CHR 0x0A] @ ''request'')))]\<rparr>"

text \<open>The nodes of the directory and of the file, as the parser builds them.\<close>

definition docs_node :: FsNode where
  "docs_node =
     \<lparr>user = ''admin'', path = ''docs/'', name = ''docs'',
      info = \<lparr>nc_id = '''', fileid = 10, etag = '''', size' = 0, content_length = 0,
              last_modified = 0, permissions = '''', favorite = False\<rparr>\<rparr>"

definition a_txt_node :: FsNode where
  "a_txt_node =
     \<lparr>user = ''admin'', path = ''docs/a.txt'', name = ''a.txt'',
      info = \<lparr>nc_id = '''', fileid = 11, etag = '''', size' = 0, content_length = 5,
              last_modified = 0, permissions = '''', favorite = False\<rparr>\<rparr>"

section \<open>Observing the requests of an operation\<close>

text \<open>
  \<open>logged sess\<close> is the session \<open>sess\<close> with a transport that also keeps, beside the
  platform state, the list of the requests made so far: method, path and the status
  code of the answer. Nothing else changes.
\<close>

definition logged :: "'s Session \<Rightarrow> ('s \<times> (string \<times> string \<times> int) list) Session" where
  "logged sess =
     \<lparr>session_user = session_user sess,
      dav_url_suffix = dav_url_suffix sess,
      dav = (\<lambda>(s, requests) method pth body headers.
               (let (response, s') = dav sess s method pth body headers
                in (response, (s', requests @ [(method, pth, status_code response)])))),
      is_error = is_error sess,
      phrase = phrase sess,
      unquote = unquote sess,
      parsedate_to_datetime = parsedate_to_datetime sess,
      xmltodict_parse = xmltodict_parse sess\<rparr>"

text \<open>
  The values that \<^verbatim>\<open>_path\<close> takes in the loop of \<^verbatim>\<open>makedirs\<close>: each part joined to the
  parts before it.
\<close>

fun cumulative_paths :: "string \<Rightarrow> string list \<Rightarrow> string list" where
  "cumulative_paths p [] = []"
| "cumulative_paths p (i # rest) = path_join p i # cumulative_paths (path_join p i) rest"

text \<open>The \<^verbatim>\<open>raise\<close> of \<^verbatim>\<open>NextcloudException\<close>, as a test on a result.\<close>

definition is_remote_error :: "error + 'a \<Rightarrow> bool" where
  "is_remote_error r = (case r of Inl (NextcloudException code reason req_info) \<Rightarrow> True | _ \<Rightarrow> False)"

text \<open>
  The top-level error payload of a parsed body: the \<^verbatim>\<open>d:error\<close> root with both its
  \<^verbatim>\<open>s:exception\<close> and its \<^verbatim>\<open>s:message\<close>.
\<close>

definition error_payload :: "dav_document option \<Rightarrow> (string \<times> string) option" where
  "error_payload doc =
     (case doc of Some (DError (Some exc) (Some msg)) \<Rightarrow> Some (exc, msg) | _ \<Rightarrow> None)"

section \<open>Lemmas\<close>

lemma add_value_clause:
  "well_formed e \<Longrightarrow>
     add_value el (tokens e @ rest) PNone = Inr (append_child el (clause_xml e), rest)"
proof (induction e arbitrary: el rest)
  case (Comparison oper field v)
  then show ?case
    by (auto simp: add_value.simps pop0_def search_property_def append_child_def
        new_element_def set_text_def)
next
  case (Compound or_and a b)
  then show ?case
    by (auto simp: add_value.simps process_or_and.simps pop0_def append_child_def
        new_element_def py_str_def is_or_and_def)
qed

lemma append_node_set:
  "append_node n r = (Inr ns, s') \<Longrightarrow> \<exists>ms. r = (Inr ms, s') \<and> ns = n # ms"
  by (auto simp: append_node_def split: prod.splits sum.splits)

lemma parse_records_plain_fileid:
  "parse_records sess recs usr False s = (Inr ns, s') \<Longrightarrow> \<forall>n \<in> set ns. fileid (info n) \<noteq> 0"
proof (induction recs arbitrary: ns s s')
  case Nil
  then show ?case by (simp add: parse_records.simps)
next
  case (Cons r recs)
  then show ?case
    by (auto simp: parse_records.simps Let_def split: if_splits option.splits sum.splits
        dest!: append_node_set)
qed

lemma read_prop_stat_skip:
  "\<not> contains (case d_status ps of None \<Rightarrow> [] | Some x \<Rightarrow> x) ''200 OK'' \<Longrightarrow>
     read_prop_stat pd n ps = Inr n"
  by (simp add: read_prop_stat_def)

lemma parse_record_loop_skip:
  "\<forall>ps \<in> set pss. \<not> contains (case d_status ps of None \<Rightarrow> [] | Some x \<Rightarrow> x) ''200 OK'' \<Longrightarrow>
     parse_record_loop pd n pss = Inr n"
  by (induction pss) (simp_all add: read_prop_stat_skip)

lemma del_first_subset: "set (del_first P xs) \<subseteq> set xs"
  by (induction xs) auto

lemma lf_parse_plain_fileid:
  "lf_parse_webdav_records sess res usr i False s = (Inr ns, s') \<Longrightarrow>
     \<forall>n \<in> set ns. fileid (info n) \<noteq> 0"
  by (auto simp: lf_parse_webdav_records.simps split: sum.splits if_splits option.splits
      dav_document.splits dest!: parse_records_plain_fileid)

lemma listdir_inner_fileid:
  "listdir_inner sess usr pth props ex s = (Inr ns, s') \<Longrightarrow>
     \<forall>n \<in> set ns. fileid (info n) \<noteq> 0"
  using del_first_subset
  by (fastforce simp: listdir_inner.simps Let_def split: prod.splits sum.splits if_splits
      dest!: lf_parse_plain_fileid)

lemma listdir_fileid:
  "listdir sess pth ex root s = (Inr ns, s') \<Longrightarrow> \<forall>n \<in> set ns. fileid (info n) \<noteq> 0"
  by (simp add: listdir.simps listdir_inner_fileid)

lemma by_path_fileid:
  "by_path sess pth s = (Inr (Some n), s') \<Longrightarrow> fileid (info n) \<noteq> 0"
  by (auto simp: by_path.simps first_or_none_def split: prod.splits sum.splits list.splits
      dest!: listdir_fileid)

lemma parse_records_fileid:
  "parse_records sess recs usr fav s = (Inr ns, s') \<Longrightarrow> \<forall>n \<in> set ns. fileid (info n) \<noteq> 0"
proof (induction recs arbitrary: ns s s')
  case Nil
  then show ?case by (simp add: parse_records.simps)
next
  case (Cons r recs)
  then show ?case
    by (auto simp: parse_records.simps Let_def split: if_splits option.splits sum.splits prod.splits
        dest!: append_node_set by_path_fileid)
qed

lemma find_fileid:
  "find' sess req pth depth s = (Inr ns, s') \<Longrightarrow> \<forall>n \<in> set ns. fileid (info n) \<noteq> 0"
  by (auto simp: find'_def Let_def split: sum.splits prod.splits dest!: lf_parse_plain_fileid)

lemma by_id_fileid:
  "by_id sess fid s = (Inr (Some n), s') \<Longrightarrow> fileid (info n) \<noteq> 0"
  by (auto simp: by_id_def first_or_none_def split: prod.splits sum.splits list.splits
      dest!: find_fileid)

lemma lf_parse_fileid:
  "lf_parse_webdav_records sess res usr i fav s = (Inr ns, s') \<Longrightarrow>
     \<forall>n \<in> set ns. fileid (info n) \<noteq> 0"
  by (auto simp: lf_parse_webdav_records.simps split: sum.splits if_splits option.splits
      dav_document.splits dest!: parse_records_fileid)

lemma listfav_fileid:
  "listfav sess s = (Inr ns, s') \<Longrightarrow> \<forall>n \<in> set ns. fileid (info n) \<noteq> 0"
  by (auto simp: listfav_def Let_def split: sum.splits prod.splits dest!: lf_parse_fileid)






lemma str_prop_last_modified:
  "(\<And>v i. last_modified (upd v i) = last_modified i) \<Longrightarrow>
     last_modified (info (str_prop prop k (\<lambda>v i. upd v i) n)) = last_modified (info n)"
  by (auto simp: str_prop_def split: option.splits)





lemma last_segment_empty_iff:
  "rsplit_last c (rstrip c s) = [] \<longleftrightarrow> set s \<subseteq> {c}"
proof -
  have "takeWhile (\<lambda>x. x \<noteq> c) (dropWhile (\<lambda>x. x = c) xs) = [] \<longleftrightarrow> set xs \<subseteq> {c}" for xs
  proof (cases "dropWhile (\<lambda>x. x = c) xs")
    case Nil
    have sub: "set xs \<subseteq> {c}"
      using Nil by (auto simp: dropWhile_eq_Nil_conv)
    show ?thesis
      unfolding Nil using sub by simp
  next
    case (Cons y ys)
    then have "y \<noteq> c" using hd_dropWhile [of "\<lambda>x. x = c" xs] by auto
    moreover have "y \<in> set xs"
      using Cons set_dropWhileD [of y "\<lambda>x. x = c" xs] by simp
    ultimately have "\<not> set xs \<subseteq> {c}"
      by auto
    with \<open>y \<noteq> c\<close> show ?thesis
      unfolding Cons by simp
  qed
  from this [of "rev s"] show ?thesis
    by (simp add: rsplit_last_def rstrip_def)
qed

lemma int_prop_identity:
  "int_prop p k u n = Inr n' \<Longrightarrow> user n' = user n \<and> path n' = path n \<and> name n' = name n"
  by (auto simp: int_prop_def split: option.splits)

lemma str_prop_identity:
  "user (str_prop p k u n) = user n \<and> path (str_prop p k u n) = path n
   \<and> name (str_prop p k u n) = name n"
  by (auto simp: str_prop_def split: option.splits)

lemma date_prop_identity:
  "date_prop pd p n = Inr n' \<Longrightarrow> user n' = user n \<and> path n' = path n \<and> name n' = name n"
  by (auto simp: date_prop_def last_modified_setter_def split: option.splits)

lemma then_do_Inr: "then_do r f = Inr y \<Longrightarrow> \<exists>x. r = Inr x \<and> f x = Inr y"
  by (cases r) (simp_all add: then_do_def)

lemma read_prop_stat_identity:
  assumes "read_prop_stat pd n b = Inr n'"
  shows "user n' = user n \<and> path n' = path n \<and> name n' = name n"
proof (cases "contains (case d_status b of None \<Rightarrow> '''' | Some s \<Rightarrow> s) ''200 OK''")
  case False
  with assms show ?thesis by (simp add: read_prop_stat_def)
next
  case True
  with assms obtain p where p: "d_prop b = Some p"
    by (auto simp: read_prop_stat_def split: option.splits)
  from assms True p obtain n2 n3 n4 n6 where
    "int_prop p ''oc:fileid'' (\<lambda>v i. i\<lparr>fileid := v\<rparr>)
       (str_prop p ''oc:id'' (\<lambda>v i. i\<lparr>nc_id := v\<rparr>) n) = Inr n2"
    "int_prop p ''oc:size'' (\<lambda>v i. i\<lparr>size' := v\<rparr>) n2 = Inr n3"
    "int_prop p ''d:getcontentlength'' (\<lambda>v i. i\<lparr>content_length := v\<rparr>) n3 = Inr n4"
    "date_prop pd p (str_prop p ''d:getetag'' (\<lambda>v i. i\<lparr>etag := v\<rparr>) n4) = Inr n6"
    "int_prop p ''oc:favorite'' (\<lambda>v i. i\<lparr>favorite := (v \<noteq> 0)\<rparr>)
       (str_prop p ''oc:permissions'' (\<lambda>v i. i\<lparr>permissions := v\<rparr>) n6) = Inr n'"
    by (simp add: read_prop_stat_def) (blast dest!: then_do_Inr)
  then show ?thesis
    using int_prop_identity str_prop_identity date_prop_identity by metis
qed

lemma parse_record_loop_identity:
  "parse_record_loop pd n bs = Inr n' \<Longrightarrow>
     user n' = user n \<and> path n' = path n \<and> name n' = name n"
proof (induction bs arbitrary: n)
  case Nil
  then show ?case by simp
next
  case (Cons b bs)
  then show ?case
    by (auto split: sum.splits dest!: read_prop_stat_identity)
qed

lemma parse_record_identity:
  "parse_record pd bs usr rel nm = Inr n \<Longrightarrow> user n = usr \<and> path n = rel \<and> name n = nm"
  by (auto simp: parse_record_def FsNode_init_def dest!: parse_record_loop_identity)

lemma parse_records_plain_named:
  "parse_records sess recs usr False s = (Inr ns, s') \<Longrightarrow> \<forall>n \<in> set ns. name n \<noteq> []"
proof (induction recs arbitrary: ns s s')
  case Nil
  then show ?case by (simp add: parse_records.simps)
next
  case (Cons r recs)
  then show ?case
    by (auto simp: parse_records.simps split: if_splits option.splits sum.splits
        dest!: append_node_set parse_record_identity)
qed

lemma by_path_named:
  "by_path sess pth s = (Inr (Some n), s') \<Longrightarrow> name n \<noteq> []"
proof -
  assume a: "by_path sess pth s = (Inr (Some n), s')"
  have d: "set (del_first P xs) \<subseteq> set xs" for P and xs :: "FsNode list"
    by (rule del_first_subset)
  from a obtain ns where "listdir sess pth False False s = (Inr ns, s')" and "n \<in> set ns"
    by (auto simp: by_path.simps first_or_none_def split: prod.splits sum.splits list.splits)
  then show ?thesis
    by (auto simp: listdir.simps listdir_inner.simps Let_def lf_parse_webdav_records.simps
        split: prod.splits sum.splits if_splits option.splits dav_document.splits
        dest!: parse_records_plain_named)
qed

lemma parse_records_named:
  "parse_records sess recs usr fav s = (Inr ns, s') \<Longrightarrow> \<forall>n \<in> set ns. name n \<noteq> []"
proof (induction recs arbitrary: ns s s')
  case Nil
  then show ?case by (simp add: parse_records.simps)
next
  case (Cons r recs)
  then show ?case
    by (auto simp: parse_records.simps split: if_splits option.splits sum.splits prod.splits
        dest!: append_node_set parse_record_identity by_path_named)
qed

lemma then_do_Inl: "then_do r f = Inl e \<Longrightarrow> r = Inl e \<or> (\<exists>x. r = Inr x \<and> f x = Inl e)"
  by (cases r) (simp_all add: then_do_def)

lemma int_prop_error: "int_prop p k u n = Inl e \<Longrightarrow> e = ValueError"
  by (auto simp: int_prop_def split: option.splits)

lemma date_prop_no_error: "date_prop pd p n \<noteq> Inl e"
  by (auto simp: date_prop_def last_modified_setter_def split: option.splits)

lemma read_prop_stat_error:
  "read_prop_stat pd n b = Inl e \<Longrightarrow> e = KeyError \<or> e = ValueError"
proof (cases "contains (case d_status b of None \<Rightarrow> '''' | Some s \<Rightarrow> s) ''200 OK''")
  case False
  assume "read_prop_stat pd n b = Inl e"
  with False show ?thesis by (simp add: read_prop_stat_def)
next
  case True
  assume a: "read_prop_stat pd n b = Inl e"
  show ?thesis
  proof (cases "d_prop b")
    case None
    with a True show ?thesis by (simp add: read_prop_stat_def)
  next
    case (Some p)
    with a True show ?thesis
      by (simp add: read_prop_stat_def)
        (blast dest!: then_do_Inl dest: int_prop_error date_prop_no_error [THEN notE])
  qed
qed

lemma parse_record_loop_error:
  "parse_record_loop pd n bs = Inl e \<Longrightarrow> e = KeyError \<or> e = ValueError"
proof (induction bs arbitrary: n)
  case Nil
  then show ?case by simp
next
  case (Cons b bs)
  then show ?case
    by (auto split: sum.splits dest: read_prop_stat_error)
qed

lemma append_node_Inl: "append_node n r = (Inl e, t) \<Longrightarrow> r = (Inl e, t)"
  by (auto simp: append_node_def split: prod.splits sum.splits)

lemma parse_records_plain_error:
  "parse_records sess recs usr False s = (Inl e, t) \<Longrightarrow> e = KeyError \<or> e = ValueError"
proof (induction recs arbitrary: s t)
  case Nil
  then show ?case by (simp add: parse_records.simps)
next
  case (Cons r recs)
  then show ?case
    by (auto simp: parse_records.simps parse_record_def split: if_splits option.splits sum.splits
        dest!: append_node_Inl dest: parse_record_loop_error)
qed

text \<open>
  In a favorites decode the record parser also looks entries up, so that it can also
  return whatever error a lookup returns, with the state the lookup leaves.
\<close>

lemma parse_record_error:
  "parse_record pd bs usr rel nm = Inl e \<Longrightarrow> e = KeyError \<or> e = ValueError"
  by (auto simp: parse_record_def dest: parse_record_loop_error)

lemma parse_records_favorites_error:
  "parse_records sess recs usr True s = (Inl e, t) \<Longrightarrow>
     e = KeyError \<or> e = ValueError
     \<or> (\<exists>record \<in> set recs. \<exists>s0.
           by_path sess (obg_rel_path sess usr record) s0 = (Inl e, t))"
proof (induction recs arbitrary: s)
  case Nil
  then show ?case by (simp add: parse_records.simps)
next
  case (Cons r recs)
  show ?case
  proof (cases "obj_name sess r = []")
    case True
    with Cons.prems have "parse_records sess recs usr True s = (Inl e, t)"
      by (simp add: parse_records.simps)
    from Cons.IH [OF this] show ?thesis by auto
  next
    case named: False
    show ?thesis
    proof (cases "d_propstat r")
      case None
      with named Cons.prems show ?thesis
        by (simp add: parse_records.simps)
    next
      case (Some propstat)
      show ?thesis
      proof (cases "parse_record (parsedate_to_datetime sess) (as_list propstat) usr
                      (obg_rel_path sess usr r) (obj_name sess r)")
        case (Inl e')
        with named Some Cons.prems have "e = e'"
          by (simp add: parse_records.simps)
        with Inl show ?thesis
          by (auto dest: parse_record_error)
      next
        case (Inr fs_node)
        then have p: "path fs_node = obg_rel_path sess usr r"
          by (auto dest: parse_record_identity)
        show ?thesis
        proof (cases "fileid (info fs_node) = 0")
          case True
          obtain res s1 where b: "by_path sess (obg_rel_path sess usr r) s = (res, s1)"
            by (cases "by_path sess (obg_rel_path sess usr r) s")
          show ?thesis
          proof (cases res)
            case (Inl e')
            with named Some Inr True p b Cons.prems have "e = e'" and "t = s1"
              by (simp_all add: parse_records.simps)
            with Inl b show ?thesis
              by auto
          next
            case found: (Inr found)
            with named Some Inr True p b Cons.prems
            have "parse_records sess recs usr True s1 = (Inl e, t)"
              by (cases found) (auto simp: parse_records.simps dest: append_node_Inl)
            from Cons.IH [OF this] show ?thesis by auto
          qed
        next
          case False
          with named Some Inr Cons.prems
          have "parse_records sess recs usr True s = (Inl e, t)"
            by (auto simp: parse_records.simps dest: append_node_Inl)
          from Cons.IH [OF this] show ?thesis by auto
        qed
      qed
    qed
  qed
qed

lemma makedirs_loop_step:
  "makedirs_loop sess ok p (i # rest) s =
     (let p' = path_join p i;
          rs = dav sess s ''MKCOL'' (dav_get_obj_path (session_user sess) p') None [];
          c = status_code (fst rs)
      in if is_error sess c \<and> \<not> (ok \<and> c = 405)
         then (Inl (NextcloudException (Some c) (phrase sess c)
                      (''mkdir: user='' @ session_user sess @ '', path='' @ p')), snd rs)
         else makedirs_loop sess ok p' rest (snd rs))"
  by (auto simp: mkdir_def check_error_def Let_def split: prod.splits)

text \<open>From here on the loop is unfolded with the step above.\<close>

declare makedirs_loop.simps(2) [simp del]

lemma logged_fields:
  "session_user (logged sess) = session_user sess"
  "is_error (logged sess) = is_error sess"
  "phrase (logged sess) = phrase sess"
  "dav (logged sess) (s, l) m q b h =
     (fst (dav sess s m q b h),
      (snd (dav sess s m q b h), l @ [(m, q, status_code (fst (dav sess s m q b h)))]))"
  by (simp_all add: logged_def Let_def split: prod.splits)

lemma makedirs_loop_logged_same:
  "fst (makedirs_loop (logged sess) ok p parts (s, l0)) = fst (makedirs_loop sess ok p parts s)
   \<and> fst (snd (makedirs_loop (logged sess) ok p parts (s, l0)))
       = snd (makedirs_loop sess ok p parts s)"
proof (induction parts arbitrary: p s l0)
  case Nil
  then show ?case by simp
next
  case (Cons i rest)
  let ?rs = "dav sess s ''MKCOL'' (dav_get_obj_path (session_user sess) (path_join p i)) None []"
  let ?c = "status_code (fst ?rs)"
  show ?case
  proof (cases "is_error sess ?c \<and> \<not> (ok \<and> ?c = 405)")
    case True
    then show ?thesis
      by (auto simp: makedirs_loop_step logged_fields Let_def)
  next
    case False
    then have a: "makedirs_loop (logged sess) ok p (i # rest) (s, l0)
        = makedirs_loop (logged sess) ok (path_join p i) rest
            (snd ?rs, l0 @ [(''MKCOL'', dav_get_obj_path (session_user sess) (path_join p i), ?c)])"
      by (auto simp: makedirs_loop_step logged_fields Let_def)
    from False have b: "makedirs_loop sess ok p (i # rest) s
        = makedirs_loop sess ok (path_join p i) rest (snd ?rs)"
      by (auto simp: makedirs_loop_step Let_def)
    show ?thesis
      unfolding a b by (rule Cons.IH)
  qed
qed

lemma makedirs_loop_trace:
  "makedirs_loop (logged sess) ok p parts (s, l0) = (r, (s', log)) \<Longrightarrow>
     \<exists>l. log = l0 @ l
       \<and> map (fst \<circ> snd) l
           = take (length l) (map (dav_get_obj_path (session_user sess)) (cumulative_paths p parts))
       \<and> (\<forall>x \<in> set l. fst x = ''MKCOL'')
       \<and> (r = Inr () \<longrightarrow> length l = length parts
             \<and> (\<forall>x \<in> set l. \<not> is_error sess (snd (snd x)) \<or> (ok \<and> snd (snd x) = 405)))
       \<and> (\<forall>e. r = Inl e \<longrightarrow> l \<noteq> []
             \<and> (\<forall>x \<in> set (butlast l). \<not> is_error sess (snd (snd x)) \<or> (ok \<and> snd (snd x) = 405))
             \<and> is_error sess (snd (snd (last l)))
             \<and> \<not> (ok \<and> snd (snd (last l)) = 405)
             \<and> (\<exists>reason req_info.
                   e = NextcloudException (Some (snd (snd (last l)))) reason req_info))"
proof (induction parts arbitrary: p s l0)
  case Nil
  then show ?case by auto
next
  case (Cons i rest)
  let ?p = "path_join p i"
  let ?q = "dav_get_obj_path (session_user sess) ?p"
  let ?rs = "dav sess s ''MKCOL'' ?q None []"
  let ?c = "status_code (fst ?rs)"
  let ?x = "(''MKCOL'', ?q, ?c)"
  show ?case
  proof (cases "is_error sess ?c \<and> \<not> (ok \<and> ?c = 405)")
    case True
    with Cons.prems have "r = Inl (NextcloudException (Some ?c) (phrase sess ?c)
                      (''mkdir: user='' @ session_user sess @ '', path='' @ ?p))"
      and "log = l0 @ [?x]"
      by (auto simp: makedirs_loop_step logged_fields Let_def)
    with True show ?thesis
      by (intro exI [of _ "[?x]"]) auto
  next
    case False
    with Cons.prems
    have "makedirs_loop (logged sess) ok ?p rest (snd ?rs, l0 @ [?x]) = (r, (s', log))"
      by (auto simp: makedirs_loop_step logged_fields Let_def)
    from Cons.IH [OF this] obtain l where l: "log = (l0 @ [?x]) @ l"
      "map (fst \<circ> snd) l
           = take (length l) (map (dav_get_obj_path (session_user sess)) (cumulative_paths ?p rest))"
      "\<forall>x \<in> set l. fst x = ''MKCOL''"
      "r = Inr () \<longrightarrow> length l = length rest
             \<and> (\<forall>x \<in> set l. \<not> is_error sess (snd (snd x)) \<or> (ok \<and> snd (snd x) = 405))"
      "\<forall>e. r = Inl e \<longrightarrow> l \<noteq> []
             \<and> (\<forall>x \<in> set (butlast l). \<not> is_error sess (snd (snd x)) \<or> (ok \<and> snd (snd x) = 405))
             \<and> is_error sess (snd (snd (last l)))
             \<and> \<not> (ok \<and> snd (snd (last l)) = 405)
             \<and> (\<exists>reason req_info.
                   e = NextcloudException (Some (snd (snd (last l)))) reason req_info)"
      by blast
    show ?thesis
    proof (intro exI [of _ "?x # l"] conjI)
      show "log = l0 @ ?x # l" using l(1) by simp
      show "map (fst \<circ> snd) (?x # l)
           = take (length (?x # l))
               (map (dav_get_obj_path (session_user sess)) (cumulative_paths p (i # rest)))"
        using l(2) by simp
      show "\<forall>x \<in> set (?x # l). fst x = ''MKCOL''" using l(3) by simp
      show "r = Inr () \<longrightarrow> length (?x # l) = length (i # rest)
             \<and> (\<forall>x \<in> set (?x # l). \<not> is_error sess (snd (snd x)) \<or> (ok \<and> snd (snd x) = 405))"
        using l(4) False by auto
      show "\<forall>e. r = Inl e \<longrightarrow> ?x # l \<noteq> []
             \<and> (\<forall>x \<in> set (butlast (?x # l)).
                   \<not> is_error sess (snd (snd x)) \<or> (ok \<and> snd (snd x) = 405))
             \<and> is_error sess (snd (snd (last (?x # l))))
             \<and> \<not> (ok \<and> snd (snd (last (?x # l))) = 405)
             \<and> (\<exists>reason req_info.
                   e = NextcloudException (Some (snd (snd (last (?x # l))))) reason req_info)"
        using l(5) False by auto
    qed
  qed
qed

lemma makedirs_loop_keeps_present:
  assumes keep: "\<forall>s q x. present s x \<longrightarrow> present (snd (dav sess s ''MKCOL'' q None [])) x"
  shows "present s x \<Longrightarrow> present (snd (makedirs_loop sess ok p parts s)) x"
proof (induction parts arbitrary: p s)
  case Nil
  then show ?case by simp
next
  case (Cons i rest)
  let ?rs = "dav sess s ''MKCOL'' (dav_get_obj_path (session_user sess) (path_join p i)) None []"
  from Cons.prems keep have a: "present (snd ?rs) x"
    by blast
  then have b: "present (snd (makedirs_loop sess ok (path_join p i) rest (snd ?rs))) x"
    by (rule Cons.IH)
  from a b show ?case
    by (auto simp: makedirs_loop_step Let_def)
qed

lemma makedirs_loop_makes_present:
  assumes made: "\<forall>s q. \<not> is_error sess (status_code (fst (dav sess s ''MKCOL'' q None [])))
                    \<or> status_code (fst (dav sess s ''MKCOL'' q None [])) = 405 \<longrightarrow>
                  present (snd (dav sess s ''MKCOL'' q None [])) q"
    and keep: "\<forall>s q x. present s x \<longrightarrow> present (snd (dav sess s ''MKCOL'' q None [])) x"
  shows "fst (makedirs_loop sess True p parts s) = Inr () \<Longrightarrow>
     \<forall>x \<in> set (cumulative_paths p parts).
        present (snd (makedirs_loop sess True p parts s))
          (dav_get_obj_path (session_user sess) x)"
proof (induction parts arbitrary: p s)
  case Nil
  then show ?case by simp
next
  case (Cons i rest)
  let ?p = "path_join p i"
  let ?q = "dav_get_obj_path (session_user sess) ?p"
  let ?rs = "dav sess s ''MKCOL'' ?q None []"
  let ?c = "status_code (fst ?rs)"
  from Cons.prems have ok: "\<not> is_error sess ?c \<or> ?c = 405"
    by (auto simp: makedirs_loop_step Let_def split: if_splits)
  then have step: "makedirs_loop sess True p (i # rest) s = makedirs_loop sess True ?p rest (snd ?rs)"
    by (auto simp: makedirs_loop_step Let_def)
  from ok made have "present (snd ?rs) ?q"
    by blast
  then have "present (snd (makedirs_loop sess True ?p rest (snd ?rs))) ?q"
    using makedirs_loop_keeps_present [of present sess, OF keep] by blast
  moreover have "\<forall>x \<in> set (cumulative_paths ?p rest).
        present (snd (makedirs_loop sess True ?p rest (snd ?rs)))
          (dav_get_obj_path (session_user sess) x)"
    using Cons.prems by (intro Cons.IH) (simp add: step)
  ultimately show ?case
    by (simp add: step)
qed

lemma makedirs_loop_on_present:
  assumes again: "\<forall>s q. present s q \<longrightarrow>
                    \<not> is_error sess (status_code (fst (dav sess s ''MKCOL'' q None [])))
                    \<or> status_code (fst (dav sess s ''MKCOL'' q None [])) = 405"
    and keep: "\<forall>s q x. present s x \<longrightarrow> present (snd (dav sess s ''MKCOL'' q None [])) x"
  shows "\<forall>x \<in> set (cumulative_paths p parts).
            present s (dav_get_obj_path (session_user sess) x) \<Longrightarrow>
     fst (makedirs_loop sess True p parts s) = Inr ()"
proof (induction parts arbitrary: p s)
  case Nil
  then show ?case by simp
next
  case (Cons i rest)
  let ?p = "path_join p i"
  let ?q = "dav_get_obj_path (session_user sess) ?p"
  let ?rs = "dav sess s ''MKCOL'' ?q None []"
  let ?c = "status_code (fst ?rs)"
  from Cons.prems have "present s ?q" by simp
  with again have ok: "\<not> is_error sess ?c \<or> ?c = 405" by blast
  then have step: "makedirs_loop sess True p (i # rest) s = makedirs_loop sess True ?p rest (snd ?rs)"
    by (auto simp: makedirs_loop_step Let_def)
  have "\<forall>x \<in> set (cumulative_paths ?p rest).
          present (snd ?rs) (dav_get_obj_path (session_user sess) x)"
    using Cons.prems keep by simp
  then show ?case
    by (simp add: step Cons.IH)
qed

section \<open>The claims\<close>

subsection \<open>C1: the field table of the search compiler\<close>

text \<open>
  C1. Every field name of the search table (name, mime, last_modified, size, favorite,
  fileid) compiles to its remote property element, and a field name outside the table
  fails with a KeyError. The table of \<^verbatim>\<open>files.py\<close> spells the first key \<^verbatim>\<open>"name:"\<close>, with
  a colon, so the field \<^verbatim>\<open>name\<close> that the comment in \<^verbatim>\<open>find\<close> lists is rejected with a
  KeyError, and \<^verbatim>\<open>d:displayname\<close> is emitted for the misspelt key only.
\<close>

theorem search_field_name_C1:
  "build_search_req (new_element ''d:where'') [PStr ''eq'', PStr ''name'', PStr ''x'']
     = Inl KeyError
   \<and> build_search_req (new_element ''d:where'') [PStr ''eq'', PStr ''name:'', PStr ''x'']
     = Inr (Element ''d:where'' [] None
              [Element ''d:eq'' [] None
                 [Element ''d:prop'' [] None [Element ''d:displayname'' [] None []],
                  Element ''d:literal'' [] (Some ''x'') []]])"
  by (simp add: build_search_req.simps add_value.simps pop0_def is_or_and_def
      search_property_def SEARCH_PROPERTIES_MAP_def append_child_def new_element_def
      set_text_def py_str_def)

subsection \<open>C2: compound clauses\<close>

text \<open>
  C2, as stated: compiling the nested list
  \<^verbatim>\<open>["and", ["eq","fileid",42], ["eq","favorite",True]]\<close> produces one \<^verbatim>\<open>d:and\<close> element
  with two children. On the code the first inner list is taken for an operator and the
  second for a field name: looking a list up in the field table is a TypeError.
\<close>

theorem nested_operands_C2_counterexample:
  "build_search_req (new_element ''d:where'')
     [PStr ''and'', PList [PStr ''eq'', PStr ''fileid'', PInt 42],
      PList [PStr ''eq'', PStr ''favorite'', PBool True]] = Inl TypeError"
  by (simp add: build_search_req.simps add_value.simps process_or_and.simps pop0_def
      is_or_and_def search_property_def py_str_def)

text \<open>
  C2, amended: the expression is a flat list in prefix form. An \<^verbatim>\<open>"and"\<close>/\<^verbatim>\<open>"or"\<close> token
  consumes exactly the items of its next two clauses (each a comparison triple or a
  further compound) and leaves what follows them untouched; it appends one \<^verbatim>\<open>d:and\<close> or
  \<^verbatim>\<open>d:or\<close> element whose children are exactly the elements of the two clauses. In
  particular \<^verbatim>\<open>["and", "eq", "fileid", 42, "eq", "favorite", True]\<close> compiles to one
  \<^verbatim>\<open>d:and\<close> element with two children, whose leaves name \<^verbatim>\<open>oc:fileid\<close> and
  \<^verbatim>\<open>oc:favorite\<close>.
\<close>

theorem compound_consumes_two_clauses_C2:
  "(well_formed a \<and> well_formed b \<and> is_or_and (PStr or_and) \<longrightarrow>
      add_value el (PStr or_and # tokens a @ tokens b @ rest) PNone
        = Inr (append_child el
                 (Element (''d:'' @ or_and) [] None [clause_xml a, clause_xml b]), rest)
      \<and> build_search_req (new_element ''d:where'') (PStr or_and # tokens a @ tokens b)
        = Inr (Element ''d:where'' [] None
                 [Element (''d:'' @ or_and) [] None [clause_xml a, clause_xml b]]))
   \<and> build_search_req (new_element ''d:where'')
        [PStr ''and'', PStr ''eq'', PStr ''fileid'', PInt 42,
         PStr ''eq'', PStr ''favorite'', PBool True]
      = Inr (Element ''d:where'' [] None
               [Element ''d:and'' [] None
                  [Element ''d:eq'' [] None
                     [Element ''d:prop'' [] None [Element ''oc:fileid'' [] None []],
                      Element ''d:literal'' [] (Some ''42'') []],
                   Element ''d:eq'' [] None
                     [Element ''d:prop'' [] None [Element ''oc:favorite'' [] None []],
                      Element ''d:literal'' [] (Some ''True'') []]]])"
proof (intro conjI impI)
  assume wf: "well_formed a \<and> well_formed b \<and> is_or_and (PStr or_and)"
  then have c: "well_formed (Compound or_and a b)" by simp
  from add_value_clause [OF c, of el rest]
  show "add_value el (PStr or_and # tokens a @ tokens b @ rest) PNone
        = Inr (append_child el
                 (Element (''d:'' @ or_and) [] None [clause_xml a, clause_xml b]), rest)"
    by simp
  from wf have oa: "is_or_and (PStr or_and)" by simp
  from add_value_clause [OF c, of "new_element ''d:where''" "[]"]
  have "add_value (new_element ''d:where'') (PStr or_and # tokens a @ tokens b) PNone
        = Inr (Element ''d:where'' [] None
                 [Element (''d:'' @ or_and) [] None [clause_xml a, clause_xml b]], [])"
    by (simp add: append_child_def new_element_def)
  then have "process_or_and (new_element ''d:where'') (tokens a @ tokens b) or_and
        = Inr (Element ''d:where'' [] None
                 [Element (''d:'' @ or_and) [] None [clause_xml a, clause_xml b]], [])"
    using oa by (simp add: add_value.simps pop0_def py_str_def)
  then show "build_search_req (new_element ''d:where'') (PStr or_and # tokens a @ tokens b)
        = Inr (Element ''d:where'' [] None
                 [Element (''d:'' @ or_and) [] None [clause_xml a, clause_xml b]])"
    using oa by (simp add: build_search_req.simps [of _ "PStr or_and # _"]
        build_search_req.simps [of _ "[]"] pop0_def py_str_def)
next
  show "build_search_req (new_element ''d:where'')
        [PStr ''and'', PStr ''eq'', PStr ''fileid'', PInt 42,
         PStr ''eq'', PStr ''favorite'', PBool True]
      = Inr (Element ''d:where'' [] None
               [Element ''d:and'' [] None
                  [Element ''d:eq'' [] None
                     [Element ''d:prop'' [] None [Element ''oc:fileid'' [] None []],
                      Element ''d:literal'' [] (Some ''42'') []],
                   Element ''d:eq'' [] None
                     [Element ''d:prop'' [] None [Element ''oc:favorite'' [] None []],
                      Element ''d:literal'' [] (Some ''True'') []]]])"
    by code_simp
qed

theorem compound_consumes_two_clauses_C2_witness:
  "well_formed (Comparison (PStr ''gt'') ''size'' (PInt 0))
   \<and> well_formed (Comparison (PStr ''like'') ''mime'' (PStr ''image/%''))
   \<and> is_or_and (PStr ''or'')
   \<and> add_value (new_element ''d:where'')
        [PStr ''or'', PStr ''gt'', PStr ''size'', PInt 0,
         PStr ''like'', PStr ''mime'', PStr ''image/%'', PStr ''eq'', PStr ''fileid'', PInt 7]
        PNone
      = Inr (Element ''d:where'' [] None
               [Element ''d:or'' [] None
                  [Element ''d:gt'' [] None
                     [Element ''d:prop'' [] None [Element ''oc:size'' [] None []],
                      Element ''d:literal'' [] (Some ''0'') []],
                   Element ''d:like'' [] None
                     [Element ''d:prop'' [] None [Element ''d:getcontenttype'' [] None []],
                      Element ''d:literal'' [] (Some ''image/%'') []]]],
             [PStr ''eq'', PStr ''fileid'', PInt 7])"
proof -
  have h: "well_formed (Comparison (PStr ''gt'') ''size'' (PInt 0))
      \<and> well_formed (Comparison (PStr ''like'') ''mime'' (PStr ''image/%''))
      \<and> is_or_and (PStr ''or'')"
    by (simp add: is_or_and_def SEARCH_PROPERTIES_MAP_def)
  have n: "nat_digits 0 = ''0''"
    by (simp add: nat_digits.simps)
  from h compound_consumes_two_clauses_C2
         [of "Comparison (PStr ''gt'') ''size'' (PInt 0)"
             "Comparison (PStr ''like'') ''mime'' (PStr ''image/%'')" "''or''"
             "new_element ''d:where''" "[PStr ''eq'', PStr ''fileid'', PInt 7]"]
  show ?thesis
    by (simp add: SEARCH_PROPERTIES_MAP_def append_child_def new_element_def py_str_def
        int_str_def n)
qed

subsection \<open>C3: placeholders are filtered\<close>

text \<open>
  C3. A record parsed from propstat blocks none of which has a status containing
  \<^verbatim>\<open>200 OK\<close> yields a node with file id 0; and the list returned by any operation
  (the record loop and the decoder in either mode, \<^verbatim>\<open>listdir\<close>, \<^verbatim>\<open>find\<close>, \<^verbatim>\<open>listfav\<close>)
  holds only nodes with a file id other than 0, as does the node that \<^verbatim>\<open>by_path\<close> or
  \<^verbatim>\<open>by_id\<close> returns.
\<close>

theorem placeholder_filtering_C3:
  "((\<forall>ps \<in> set prop_stats.
        \<not> contains (case d_status ps of None \<Rightarrow> '''' | Some x \<Rightarrow> x) ''200 OK'') \<longrightarrow>
      parse_record pd prop_stats usr0 rel nm = Inr (FsNode_init usr0 rel nm)
      \<and> fileid (info (FsNode_init usr0 rel nm)) = 0)
   \<and> (parse_records sess recs usr1 fav1 s1 = (Inr ns1, t1) \<longrightarrow>
        (\<forall>n \<in> set ns1. fileid (info n) \<noteq> 0))
   \<and> (lf_parse_webdav_records sess res usr2 i2 fav2 s2 = (Inr ns2, t2) \<longrightarrow>
        (\<forall>n \<in> set ns2. fileid (info n) \<noteq> 0))
   \<and> (listdir sess pth3 ex3 root3 s3 = (Inr ns3, t3) \<longrightarrow>
        (\<forall>n \<in> set ns3. fileid (info n) \<noteq> 0))
   \<and> (find' sess req4 pth4 depth4 s4 = (Inr ns4, t4) \<longrightarrow>
        (\<forall>n \<in> set ns4. fileid (info n) \<noteq> 0))
   \<and> (listfav sess s5 = (Inr ns5, t5) \<longrightarrow> (\<forall>n \<in> set ns5. fileid (info n) \<noteq> 0))
   \<and> (by_path sess pth6 s6 = (Inr (Some n6), t6) \<longrightarrow> fileid (info n6) \<noteq> 0)
   \<and> (by_id sess fid7 s7 = (Inr (Some n7), t7) \<longrightarrow> fileid (info n7) \<noteq> 0)"
proof -
  have "(\<forall>ps \<in> set prop_stats.
        \<not> contains (case d_status ps of None \<Rightarrow> '''' | Some x \<Rightarrow> x) ''200 OK'') \<Longrightarrow>
      parse_record pd prop_stats usr0 rel nm = Inr (FsNode_init usr0 rel nm)
      \<and> fileid (info (FsNode_init usr0 rel nm)) = 0"
    by (simp add: parse_record_def parse_record_loop_skip FsNode_init_def)
  then show ?thesis
    by (intro conjI impI)
      (simp_all add: parse_records_fileid lf_parse_fileid listdir_fileid find_fileid
        listfav_fileid by_path_fileid by_id_fileid)
qed

theorem placeholder_filtering_C3_witness:
  "\<not> contains ''HTTP/1.1 404 Not Found'' ''200 OK''
   \<and> parse_record (parsedate_to_datetime example_session)
        [missing_propstat [(''oc:fileid'', ''7'')]] ''admin'' ''docs/a.txt'' ''a.txt''
      = Inr (FsNode_init ''admin'' ''docs/a.txt'' ''a.txt'')
   \<and> fileid (info (FsNode_init ''admin'' ''docs/a.txt'' ''a.txt'')) = 0
   \<and> parse_records example_session [docs_entry, a_txt_placeholder, a_txt_entry] ''admin''
        False [] = (Inr [docs_node, a_txt_node], [])
   \<and> lf_parse_webdav_records example_session (example_response 207 ''<favorites>'')
        ''admin'' ''listfav: admin'' True []
      = (Inr [a_txt_node\<lparr>info := (info a_txt_node)\<lparr>favorite := True\<rparr>\<rparr>], [])
   \<and> listdir example_session ''docs'' True False [] = (Inr [a_txt_node], [])
   \<and> find' example_session [PStr ''eq'', PStr ''fileid'', PInt 11] '''' (- 1) []
      = (Inr [a_txt_node], [])
   \<and> listfav example_session []
      = (Inr [a_txt_node\<lparr>info := (info a_txt_node)\<lparr>favorite := True\<rparr>\<rparr>], [])
   \<and> by_path example_session ''docs'' [] = (Inr (Some docs_node), [])
   \<and> by_id example_session 11 [] = (Inr (Some a_txt_node), [])
   \<and> fileid (info docs_node) \<noteq> 0
   \<and> fileid (info a_txt_node) \<noteq> 0
   \<and> fileid (info (a_txt_node\<lparr>info := (info a_txt_node)\<lparr>favorite := True\<rparr>\<rparr>)) \<noteq> 0"
proof -
  have h0: "\<forall>ps \<in> set [missing_propstat [(''oc:fileid'', ''7'')]].
        \<not> contains (case d_status ps of None \<Rightarrow> '''' | Some x \<Rightarrow> x) ''200 OK''"
    by code_simp
  have h0': "\<not> contains ''HTTP/1.1 404 Not Found'' ''200 OK''"
    by code_simp
  have h1: "parse_records example_session [docs_entry, a_txt_placeholder, a_txt_entry]
        ''admin'' False [] = (Inr [docs_node, a_txt_node], [])"
    by code_simp
  have h2: "lf_parse_webdav_records example_session (example_response 207 ''<favorites>'')
        ''admin'' ''listfav: admin'' True []
      = (Inr [a_txt_node\<lparr>info := (info a_txt_node)\<lparr>favorite := True\<rparr>\<rparr>], [])"
    by code_simp
  have h3: "listdir example_session ''docs'' True False [] = (Inr [a_txt_node], [])"
    by code_simp
  have h4: "find' example_session [PStr ''eq'', PStr ''fileid'', PInt 11] '''' (- 1) []
      = (Inr [a_txt_node], [])"
    by code_simp
  have h5: "listfav example_session []
      = (Inr [a_txt_node\<lparr>info := (info a_txt_node)\<lparr>favorite := True\<rparr>\<rparr>], [])"
    by code_simp
  have h6: "by_path example_session ''docs'' [] = (Inr (Some docs_node), [])"
    by code_simp
  have h7: "by_id example_session 11 [] = (Inr (Some a_txt_node), [])"
    by code_simp
  from placeholder_filtering_C3
    [where prop_stats = "[missing_propstat [(''oc:fileid'', ''7'')]]"
       and pd = "parsedate_to_datetime example_session"
       and ?usr0.0 = "''admin''" and rel = "''docs/a.txt''" and nm = "''a.txt''"
       and sess = example_session
       and recs = "[docs_entry, a_txt_placeholder, a_txt_entry]" and ?usr1.0 = "''admin''"
       and ?fav1.0 = False and ?s1.0 = "[]" and ?ns1.0 = "[docs_node, a_txt_node]"
       and ?t1.0 = "[]"
       and res = "example_response 207 ''<favorites>''" and ?usr2.0 = "''admin''"
       and ?i2.0 = "''listfav: admin''" and ?fav2.0 = True and ?s2.0 = "[]"
       and ?ns2.0 = "[a_txt_node\<lparr>info := (info a_txt_node)\<lparr>favorite := True\<rparr>\<rparr>]"
       and ?t2.0 = "[]"
       and ?pth3.0 = "''docs''" and ?ex3.0 = True and ?root3.0 = False and ?s3.0 = "[]"
       and ?ns3.0 = "[a_txt_node]" and ?t3.0 = "[]"
       and ?req4.0 = "[PStr ''eq'', PStr ''fileid'', PInt 11]" and ?pth4.0 = "''''"
       and ?depth4.0 = "- 1" and ?s4.0 = "[]" and ?ns4.0 = "[a_txt_node]" and ?t4.0 = "[]"
       and ?s5.0 = "[]"
       and ?ns5.0 = "[a_txt_node\<lparr>info := (info a_txt_node)\<lparr>favorite := True\<rparr>\<rparr>]"
       and ?t5.0 = "[]"
       and ?pth6.0 = "''docs''" and ?s6.0 = "[]" and ?n6.0 = docs_node and ?t6.0 = "[]"
       and ?fid7.0 = 11 and ?s7.0 = "[]" and ?n7.0 = a_txt_node and ?t7.0 = "[]"]
    h0 h0' h1 h2 h3 h4 h5 h6 h7
  show ?thesis
    by simp
qed

subsection \<open>C5: a queried path with a leading slash\<close>

text \<open>
  C5. For a directory whose response parses to its own entry and N children,
  \<^verbatim>\<open>listdir(P, exclude_self=True)\<close> returns the N children. \<^verbatim>\<open>_listdir\<close> builds the path
  it compares with from the argument as it is, while the request path and the full path
  of a node drop the leading slashes: for \<^verbatim>\<open>P = "/docs"\<close> the same two entries come back
  as for \<^verbatim>\<open>"docs"\<close>, no node matches, and the directory itself stays in the result.
\<close>

theorem listdir_leading_slash_C5:
  "listdir example_session ''/docs'' False False [] = (Inr [docs_node, a_txt_node], [])
   \<and> listdir example_session ''/docs'' True False [] = (Inr [docs_node, a_txt_node], [])
   \<and> listdir example_session ''docs'' True False [] = (Inr [a_txt_node], [])
   \<and> full_path docs_node = ''admin/docs/''
   \<and> listdir_full_path ''admin'' ''/docs'' = ''admin//docs''
   \<and> dav_get_obj_path ''admin'' ''/docs'' = dav_get_obj_path ''admin'' ''docs''"
  by code_simp

subsection \<open>C10: what self-exclusion removes\<close>



subsection \<open>C7: the last-modified date\<close>



subsection \<open>C6: favorites are looked up\<close>

text \<open>
  C6. In a favorites decode, an entry with a name that parses to a node with file id 0
  is looked up with \<^verbatim>\<open>by_path\<close> at the entry's path relative to the account. When the
  lookup returns a node, that node comes next in the result with its favorite flag set
  and its file id as looked up; when it returns nothing, the entry is dropped and the
  loop goes on from the state the lookup left; when it raises, so does the decode.
\<close>

theorem favorite_enrichment_C6:
  "obj_name sess record \<noteq> []
   \<and> d_propstat record = Some propstat
   \<and> parse_record (parsedate_to_datetime sess) (as_list propstat) usr
        (obg_rel_path sess usr record) (obj_name sess record) = Inr fs_node
   \<and> fileid (info fs_node) = 0
   \<longrightarrow>
     path fs_node = obg_rel_path sess usr record
     \<and> (by_path sess (obg_rel_path sess usr record) s = (Inr (Some found), s1)
          \<and> parse_records sess rest usr True s1 = (Inr ns, s2) \<longrightarrow>
        parse_records sess (record # rest) usr True s
          = (Inr (found\<lparr>info := (info found)\<lparr>favorite := True\<rparr>\<rparr> # ns), s2)
        \<and> favorite (info (found\<lparr>info := (info found)\<lparr>favorite := True\<rparr>\<rparr>))
        \<and> fileid (info (found\<lparr>info := (info found)\<lparr>favorite := True\<rparr>\<rparr>))
            = fileid (info found)
        \<and> fileid (info found) \<noteq> 0)
     \<and> (by_path sess (obg_rel_path sess usr record) s = (Inr None, s1) \<longrightarrow>
        parse_records sess (record # rest) usr True s = parse_records sess rest usr True s1)
     \<and> (by_path sess (obg_rel_path sess usr record) s = (Inl e, s1) \<longrightarrow>
        parse_records sess (record # rest) usr True s = (Inl e, s1))"
proof (intro impI)
  assume a: "obj_name sess record \<noteq> []
   \<and> d_propstat record = Some propstat
   \<and> parse_record (parsedate_to_datetime sess) (as_list propstat) usr
        (obg_rel_path sess usr record) (obj_name sess record) = Inr fs_node
   \<and> fileid (info fs_node) = 0"
  then have p: "path fs_node = obg_rel_path sess usr record"
    using parse_record_identity by blast
  have u: "parse_records sess (record # rest) usr True s
      = (case by_path sess (obg_rel_path sess usr record) s of
           (Inl e, s1) \<Rightarrow> (Inl e, s1)
         | (Inr None, s1) \<Rightarrow> parse_records sess rest usr True s1
         | (Inr (Some fs_node'), s1) \<Rightarrow>
             append_node (fs_node'\<lparr>info := (info fs_node')\<lparr>favorite := True\<rparr>\<rparr>)
               (parse_records sess rest usr True s1))"
    using a p by (simp add: parse_records.simps)
  show "path fs_node = obg_rel_path sess usr record
     \<and> (by_path sess (obg_rel_path sess usr record) s = (Inr (Some found), s1)
          \<and> parse_records sess rest usr True s1 = (Inr ns, s2) \<longrightarrow>
        parse_records sess (record # rest) usr True s
          = (Inr (found\<lparr>info := (info found)\<lparr>favorite := True\<rparr>\<rparr> # ns), s2)
        \<and> favorite (info (found\<lparr>info := (info found)\<lparr>favorite := True\<rparr>\<rparr>))
        \<and> fileid (info (found\<lparr>info := (info found)\<lparr>favorite := True\<rparr>\<rparr>))
            = fileid (info found)
        \<and> fileid (info found) \<noteq> 0)
     \<and> (by_path sess (obg_rel_path sess usr record) s = (Inr None, s1) \<longrightarrow>
        parse_records sess (record # rest) usr True s = parse_records sess rest usr True s1)
     \<and> (by_path sess (obg_rel_path sess usr record) s = (Inl e, s1) \<longrightarrow>
        parse_records sess (record # rest) usr True s = (Inl e, s1))"
    using p by (auto simp: u append_node_def dest: by_path_fileid)
qed

theorem favorite_enrichment_C6_witness:
  "obj_name example_session a_txt_placeholder = ''a.txt''
   \<and> obg_rel_path example_session ''admin'' a_txt_placeholder = ''docs/a.txt''
   \<and> parse_record (parsedate_to_datetime example_session)
        [missing_propstat [(''oc:fileid'', '''')]] ''admin'' ''docs/a.txt'' ''a.txt''
      = Inr (FsNode_init ''admin'' ''docs/a.txt'' ''a.txt'')
   \<and> by_path example_session ''docs/a.txt'' [] = (Inr (Some a_txt_node), [])
   \<and> parse_records example_session [a_txt_placeholder, docs_entry] ''admin'' True []
      = (Inr [a_txt_node\<lparr>info := (info a_txt_node)\<lparr>favorite := True\<rparr>\<rparr>, docs_node], [])
   \<and> fileid (info (a_txt_node\<lparr>info := (info a_txt_node)\<lparr>favorite := True\<rparr>\<rparr>)) = 11
   \<and> obj_name example_session void_placeholder = ''void.txt''
   \<and> by_path example_session ''void.txt'' [] = (Inr None, [])
   \<and> parse_records example_session [void_placeholder, docs_entry] ''admin'' True []
      = (Inr [docs_node], [])
   \<and> obj_name example_session gone_placeholder = ''gone.txt''
   \<and> by_path example_session ''gone.txt'' []
      = (Inl (NextcloudException (Some 404) ''Not Found''
           (''list: admin, gone.txt, '' @ py_repr (PList (map PStr PROPFIND_PROPERTIES)))), [])
   \<and> parse_records example_session [gone_placeholder, docs_entry] ''admin'' True []
      = (Inl (NextcloudException (Some 404) ''Not Found''
           (''list: admin, gone.txt, '' @ py_repr (PList (map PStr PROPFIND_PROPERTIES)))), [])"
proof -
  let ?pd = "parsedate_to_datetime example_session"
  let ?ps = "One (missing_propstat [(''oc:fileid'', '''')])"
  let ?e = "NextcloudException (Some 404) ''Not Found''
           (''list: admin, gone.txt, '' @ py_repr (PList (map PStr PROPFIND_PROPERTIES)))"
  have a1: "obj_name example_session a_txt_placeholder = ''a.txt''
      \<and> obg_rel_path example_session ''admin'' a_txt_placeholder = ''docs/a.txt''
"
    by code_simp
  have a1p: "d_propstat a_txt_placeholder = Some ?ps"
    by (simp add: a_txt_placeholder_def)
  have a2: "parse_record ?pd (as_list ?ps) ''admin'' ''docs/a.txt'' ''a.txt''
      = Inr (FsNode_init ''admin'' ''docs/a.txt'' ''a.txt'')
      \<and> fileid (info (FsNode_init ''admin'' ''docs/a.txt'' ''a.txt'')) = 0"
    by code_simp
  have a3: "by_path example_session ''docs/a.txt'' [] = (Inr (Some a_txt_node), [])"
    by code_simp
  have a4: "parse_records example_session [docs_entry] ''admin'' True [] = (Inr [docs_node], [])"
    by code_simp
  have b1: "obj_name example_session void_placeholder = ''void.txt''
      \<and> obg_rel_path example_session ''admin'' void_placeholder = ''void.txt''
"
    by code_simp
  have b1p: "d_propstat void_placeholder = Some ?ps"
    by (simp add: void_placeholder_def)
  have b2: "parse_record ?pd (as_list ?ps) ''admin'' ''void.txt'' ''void.txt''
      = Inr (FsNode_init ''admin'' ''void.txt'' ''void.txt'')
      \<and> fileid (info (FsNode_init ''admin'' ''void.txt'' ''void.txt'')) = 0"
    by code_simp
  have b3: "by_path example_session ''void.txt'' [] = (Inr None, [])"
    by code_simp
  have c1: "obj_name example_session gone_placeholder = ''gone.txt''
      \<and> obg_rel_path example_session ''admin'' gone_placeholder = ''gone.txt''
"
    by code_simp
  have c1p: "d_propstat gone_placeholder = Some ?ps"
    by (simp add: gone_placeholder_def)
  have c2: "parse_record ?pd (as_list ?ps) ''admin'' ''gone.txt'' ''gone.txt''
      = Inr (FsNode_init ''admin'' ''gone.txt'' ''gone.txt'')
      \<and> fileid (info (FsNode_init ''admin'' ''gone.txt'' ''gone.txt'')) = 0"
    by code_simp
  have c3: "by_path example_session ''gone.txt'' [] = (Inl ?e, [])"
    by code_simp
  from favorite_enrichment_C6
         [of example_session a_txt_placeholder ?ps "''admin''"
             "FsNode_init ''admin'' ''docs/a.txt'' ''a.txt''" "[]" a_txt_node "[]"
             "[docs_entry]" "[docs_node]" "[]"]
       a1 a1p a2 a3 a4
  have r1: "parse_records example_session [a_txt_placeholder, docs_entry] ''admin'' True []
      = (Inr [a_txt_node\<lparr>info := (info a_txt_node)\<lparr>favorite := True\<rparr>\<rparr>, docs_node], [])"
    by simp
  from favorite_enrichment_C6
         [of example_session void_placeholder ?ps "''admin''"
             "FsNode_init ''admin'' ''void.txt'' ''void.txt''" "[]" _ "[]" "[docs_entry]"]
       b1 b1p b2 b3 a4
  have r2: "parse_records example_session [void_placeholder, docs_entry] ''admin'' True []
      = (Inr [docs_node], [])"
    by simp
  from favorite_enrichment_C6
         [of example_session gone_placeholder ?ps "''admin''"
             "FsNode_init ''admin'' ''gone.txt'' ''gone.txt''" "[]" _ "[]" "[docs_entry]"
             _ _ ?e]
       c1 c1p c2 c3
  have r3: "parse_records example_session [gone_placeholder, docs_entry] ''admin'' True []
      = (Inl ?e, [])"
    by simp
  have f: "fileid (info (a_txt_node\<lparr>info := (info a_txt_node)\<lparr>favorite := True\<rparr>\<rparr>)) = 11"
    by (simp add: a_txt_node_def)
  from a1 a2 a3 b1 b3 c1 c3 r1 r2 r3 f show ?thesis
    by (simp add: as_list_def)
qed

subsection \<open>C8: entries without a name\<close>

text \<open>
  C8, as stated: an entry whose href, after stripping the per-user scope prefix and the
  trailing slash, yields an empty name is discarded. The entry of the account's own
  root is such an entry: nothing is left of its href once the prefix and the slashes
  are gone. The code takes the name from the whole href before it strips the prefix,
  finds \<^verbatim>\<open>admin\<close>, and returns a node for the entry.
\<close>

theorem root_entry_kept_C8_counterexample:
  "replace (obj_full_path example_session root_entry)
       (dav_url_suffix example_session @ dav_get_obj_path ''admin'' '''') '''' = ''/''
   \<and> rsplit_last CHR ''/''
       (rstrip CHR ''/''
          (replace (obj_full_path example_session root_entry)
             (dav_url_suffix example_session @ dav_get_obj_path ''admin'' '''') '''')) = ''''
   \<and> obg_rel_path example_session ''admin'' root_entry = ''''
   \<and> parse_records example_session [root_entry] ''admin'' False []
      = (Inr [\<lparr>user = ''admin'', path = '''', name = ''admin'',
               info = \<lparr>nc_id = '''', fileid = 1, etag = '''', size' = 0, content_length = 0,
                       last_modified = 0, permissions = '''', favorite = False\<rparr>\<rparr>], [])"
  by code_simp

text \<open>
  C8, amended: an entry is discarded when the last path segment of its whole href,
  trailing slashes removed, is empty, which is the case exactly when the href is
  missing, empty or made of slashes only. The loop then goes on with the next entry
  as if the entry were not there, so every node of every result has a name that is
  not empty.
\<close>

theorem nameless_entry_discarded_C8:
  "(obj_name sess record = [] \<longrightarrow>
      parse_records sess (record # rest) usr fav s = parse_records sess rest usr fav s)
   \<and> (obj_name sess record = [] \<longleftrightarrow> set (obj_full_path sess record) \<subseteq> {CHR ''/''})
   \<and> (parse_records sess recs usr fav s = (Inr ns, t) \<longrightarrow> (\<forall>n \<in> set ns. name n \<noteq> []))"
  by (intro conjI impI)
    (simp_all add: parse_records.simps obj_name_def last_segment_empty_iff parse_records_named)

theorem nameless_entry_discarded_C8_witness:
  "obj_name example_session \<lparr>d_href = Some ''//'', d_propstat = d_propstat root_entry\<rparr> = ''''
   \<and> parse_records example_session
        [\<lparr>d_href = Some ''//'', d_propstat = d_propstat root_entry\<rparr>, a_txt_entry]
        ''admin'' False []
      = (Inr [a_txt_node], [])
   \<and> parse_records example_session [a_txt_entry] ''admin'' False [] = (Inr [a_txt_node], [])
   \<and> name a_txt_node \<noteq> ''''"
proof -
  have h1: "obj_name example_session \<lparr>d_href = Some ''//'', d_propstat = d_propstat root_entry\<rparr>
      = ''''"
    by code_simp
  have h2: "parse_records example_session [a_txt_entry] ''admin'' False []
      = (Inr [a_txt_node], [])"
    by code_simp
  from nameless_entry_discarded_C8
         [of example_session "\<lparr>d_href = Some ''//'', d_propstat = d_propstat root_entry\<rparr>"
             "[a_txt_entry]" "''admin''" False "[]" "[a_txt_entry]" "[a_txt_node]" "[]"]
       h1 h2
  show ?thesis
    by simp
qed

subsection \<open>C4: when the decoder raises the remote error\<close>

text \<open>
  C4, as stated: for every response handed to the decoder, it raises the remote error
  exactly when the status code indicates failure, or is not 207, or the body is empty,
  or the parsed body is an error payload. In a favorites decode the decoder also looks
  entries up, and the remote error of a lookup is raised by the decoder: here the
  response is a 207 with a body that parses to one entry, and the lookup of that entry
  is answered with 404.
\<close>

theorem favorites_lookup_error_C4_counterexample:
  "\<not> is_error example_session (status_code (example_response 207 ''<gone>''))
   \<and> status_code (example_response 207 ''<gone>'') = 207
   \<and> text' (example_response 207 ''<gone>'') \<noteq> []
   \<and> error_payload (xmltodict_parse example_session (text' (example_response 207 ''<gone>'')))
      = None
   \<and> lf_parse_webdav_records example_session (example_response 207 ''<gone>'') ''admin''
        ''listfav: admin'' True []
      = (Inl (NextcloudException (Some 404) ''Not Found''
           (''list: admin, gone.txt, '' @ py_repr (PList (map PStr PROPFIND_PROPERTIES)))), [])"
  by code_simp

text \<open>
  C4, amended: in a plain decode (\<^verbatim>\<open>favorite=False\<close>) the decoder raises the remote error
  exactly when the status code indicates failure, or is not 207, or the body text is
  empty, or the parsed body is a top-level error payload. In a favorites decode it
  raises the remote error whenever one of the four holds. In either mode, when the first
  three fail and the body is an error payload, the reason of the error is the exception,
  a colon and a space, and the message, with the newline characters removed. In a
  favorites decode where none of the four holds, a remote error that the decoder raises
  is the error of a supplementary lookup: the body is a multistatus, and the lookup of
  the path of one of its entries returns that very error, leaving the platform in the
  state in which the decoder leaves it.
\<close>

theorem decoder_rejects_C4:
  "(is_remote_error (fst (lf_parse_webdav_records sess res usr req_info False s))
      \<longleftrightarrow> (is_error sess (status_code res) \<or> status_code res \<noteq> 207 \<or> text' res = []
           \<or> error_payload (xmltodict_parse sess (text' res)) \<noteq> None))
   \<and> (is_error sess (status_code res) \<or> status_code res \<noteq> 207 \<or> text' res = []
        \<or> error_payload (xmltodict_parse sess (text' res)) \<noteq> None
      \<longrightarrow> is_remote_error (fst (lf_parse_webdav_records sess res usr req_info True s)))
   \<and> (\<not> is_error sess (status_code res) \<and> status_code res = 207 \<and> text' res \<noteq> []
        \<and> error_payload (xmltodict_parse sess (text' res)) = Some (exc, msg)
      \<longrightarrow> lf_parse_webdav_records sess res usr req_info fav s
          = (Inl (NextcloudException None
                    (filter (\<lambda>c. c \<noteq> CHR 0x0A) (exc @ '': '' @ msg)) req_info), s))
   \<and> (\<not> is_error sess (status_code res) \<and> status_code res = 207 \<and> text' res \<noteq> []
        \<and> error_payload (xmltodict_parse sess (text' res)) = None
        \<and> lf_parse_webdav_records sess res usr req_info True s = (Inl e, t)
        \<and> is_remote_error (Inl e :: error + FsNode list)
      \<longrightarrow> (\<exists>response. xmltodict_parse sess (text' res) = Some (DMultistatus response)
           \<and> (\<exists>record \<in> set (case response of None \<Rightarrow> [] | Some r \<Rightarrow> as_list r). \<exists>s0.
                  by_path sess (obg_rel_path sess usr record) s0 = (Inl e, t))))"
proof (intro conjI impI)
  show "is_remote_error (fst (lf_parse_webdav_records sess res usr req_info False s))
      \<longleftrightarrow> (is_error sess (status_code res) \<or> status_code res \<noteq> 207 \<or> text' res = []
           \<or> error_payload (xmltodict_parse sess (text' res)) \<noteq> None)"
  proof (cases "is_error sess (status_code res) \<or> status_code res \<noteq> 207 \<or> text' res = []")
    case True
    then show ?thesis
      by (auto simp: lf_parse_webdav_records.simps check_error_def is_remote_error_def)
  next
    case False
    have p: "\<not> is_remote_error (fst (parse_records sess recs usr False s))" for recs
    proof (cases "parse_records sess recs usr False s")
      case (Pair r t)
      then show ?thesis
        by (cases r) (auto simp: is_remote_error_def dest: parse_records_plain_error)
    qed
    from False show ?thesis
      by (auto simp: lf_parse_webdav_records.simps check_error_def is_remote_error_def
          error_payload_def p [unfolded is_remote_error_def]
          split: option.splits dav_document.splits)
  qed
next
  assume "is_error sess (status_code res) \<or> status_code res \<noteq> 207 \<or> text' res = []
        \<or> error_payload (xmltodict_parse sess (text' res)) \<noteq> None"
  then show "is_remote_error (fst (lf_parse_webdav_records sess res usr req_info True s))"
    by (auto simp: lf_parse_webdav_records.simps check_error_def is_remote_error_def
        error_payload_def split: option.splits dav_document.splits)
next
  assume "\<not> is_error sess (status_code res) \<and> status_code res = 207 \<and> text' res \<noteq> []
        \<and> error_payload (xmltodict_parse sess (text' res)) = Some (exc, msg)"
  then show "lf_parse_webdav_records sess res usr req_info fav s
          = (Inl (NextcloudException None
                    (filter (\<lambda>c. c \<noteq> CHR 0x0A) (exc @ '': '' @ msg)) req_info), s)"
    by (auto simp: lf_parse_webdav_records.simps check_error_def error_payload_def
        split: option.splits dav_document.splits)
next
  assume a: "\<not> is_error sess (status_code res) \<and> status_code res = 207 \<and> text' res \<noteq> []
        \<and> error_payload (xmltodict_parse sess (text' res)) = None
        \<and> lf_parse_webdav_records sess res usr req_info True s = (Inl e, t)
        \<and> is_remote_error (Inl e :: error + FsNode list)"
  then have remote: "e \<noteq> KeyError" "e \<noteq> ValueError" "e \<noteq> ExpatError"
    by (auto simp: is_remote_error_def)
  from a have ok: "check_error sess 207 req_info = Inr ()"
    by (auto simp: check_error_def)
  from a have st: "status_code res = 207" "text' res \<noteq> []"
    by simp_all
  from a have pl: "error_payload (xmltodict_parse sess (text' res)) = None"
    by simp
  from a have "lf_parse_webdav_records sess res usr req_info True s = (Inl e, t)"
    by simp
  then have u: "(case xmltodict_parse sess (text' res) of
               None \<Rightarrow> (Inl ExpatError, s)
             | Some (DError exc msg) \<Rightarrow>
                 (case exc of
                    None \<Rightarrow> (Inl KeyError, s)
                  | Some x \<Rightarrow>
                      (case msg of
                         None \<Rightarrow> (Inl KeyError, s)
                       | Some m \<Rightarrow>
                           (Inl (NextcloudException None
                                   (filter (\<lambda>c. c \<noteq> CHR 0x0A) (x @ '': '' @ m)) req_info), s)))
             | Some DOther \<Rightarrow> (Inl KeyError, s)
             | Some (DMultistatus response) \<Rightarrow>
                 parse_records sess (case response of None \<Rightarrow> [] | Some r \<Rightarrow> as_list r)
                   usr True s) = (Inl e, t)"
    by (simp add: lf_parse_webdav_records.simps ok st)
  show "\<exists>response. xmltodict_parse sess (text' res) = Some (DMultistatus response)
           \<and> (\<exists>record \<in> set (case response of None \<Rightarrow> [] | Some r \<Rightarrow> as_list r). \<exists>s0.
                  by_path sess (obg_rel_path sess usr record) s0 = (Inl e, t))"
  proof (cases "xmltodict_parse sess (text' res)")
    case None
    with u remote show ?thesis
      by simp
  next
    case (Some doc)
    show ?thesis
    proof (cases doc)
      case (DError exc' msg')
      with u pl remote Some show ?thesis
        by (auto simp: error_payload_def split: option.splits)
    next
      case DOther
      with u remote Some show ?thesis
        by simp
    next
      case (DMultistatus response)
      with u Some
      have "parse_records sess (case response of None \<Rightarrow> [] | Some r \<Rightarrow> as_list r) usr True s
              = (Inl e, t)"
        by simp
      from parse_records_favorites_error [OF this] remote Some DMultistatus
      show ?thesis by simp
    qed
  qed
qed

theorem decoder_rejects_C4_witness:
  "is_error example_session (status_code (example_response 404 ''''))
   \<and> lf_parse_webdav_records example_session (example_response 404 '''') ''admin''
        ''list: admin'' False []
      = (Inl (NextcloudException (Some 404) ''Not Found'' ''list: admin''), [])
   \<and> is_remote_error
        (fst (lf_parse_webdav_records example_session (example_response 404 '''') ''admin''
                ''list: admin'' True []))
   \<and> \<not> is_error example_session (status_code (example_response 207 ''<error>''))
   \<and> error_payload (xmltodict_parse example_session (text' (example_response 207 ''<error>'')))
      = Some (''Sabre_DAV_Exception_BadRequest'', ''Invalid'' @ [CHR 0x0A] @ ''request'')
   \<and> lf_parse_webdav_records example_session (example_response 207 ''<error>'') ''admin''
        ''list: admin'' True []
      = (Inl (NextcloudException None ''Sabre_DAV_Exception_BadRequest: Invalidrequest''
                ''list: admin''), [])
   \<and> error_payload (xmltodict_parse example_session (text' (example_response 207 ''<docs>'')))
      = None
   \<and> \<not> is_remote_error
        (fst (lf_parse_webdav_records example_session (example_response 207 ''<docs>'')
                ''admin'' ''list: admin'' False []))
   \<and> \<not> is_error example_session (status_code (example_response 207 ''<gone>''))
   \<and> error_payload (xmltodict_parse example_session (text' (example_response 207 ''<gone>'')))
      = None
   \<and> lf_parse_webdav_records example_session (example_response 207 ''<gone>'') ''admin''
        ''listfav: admin'' True []
      = (Inl (NextcloudException (Some 404) ''Not Found''
           (''list: admin, gone.txt, '' @ py_repr (PList (map PStr PROPFIND_PROPERTIES)))), [])
   \<and> xmltodict_parse example_session (text' (example_response 207 ''<gone>''))
      = Some (DMultistatus (Some (One gone_placeholder)))
   \<and> (\<exists>s0. by_path example_session (obg_rel_path example_session ''admin'' gone_placeholder) s0
      = (Inl (NextcloudException (Some 404) ''Not Found''
           (''list: admin, gone.txt, '' @ py_repr (PList (map PStr PROPFIND_PROPERTIES)))), []))"
proof -
  let ?e = "NextcloudException (Some 404) ''Not Found''
           (''list: admin, gone.txt, '' @ py_repr (PList (map PStr PROPFIND_PROPERTIES)))"
  have g0: "\<not> is_error example_session 207"
    by code_simp
  have g1: "\<not> is_error example_session (status_code (example_response 207 ''<gone>''))
      \<and> status_code (example_response 207 ''<gone>'') = 207
      \<and> text' (example_response 207 ''<gone>'') \<noteq> []
      \<and> error_payload (xmltodict_parse example_session (text' (example_response 207 ''<gone>'')))
          = None"
    by code_simp
  have g2: "lf_parse_webdav_records example_session (example_response 207 ''<gone>'') ''admin''
        ''listfav: admin'' True [] = (Inl ?e, [])"
    by code_simp
  have g3: "is_remote_error (Inl ?e :: error + FsNode list)"
    by (simp add: is_remote_error_def)
  have g4: "xmltodict_parse example_session (text' (example_response 207 ''<gone>''))
      = Some (DMultistatus (Some (One gone_placeholder)))"
    by (simp add: example_session_def example_response_def)
  from decoder_rejects_C4
         [of example_session "example_response 207 ''<gone>''" "''admin''" "''listfav: admin''"
             "[]" _ _ _ ?e "[]"]
       g1 g2 g3 g4 g0
  have g5: "\<exists>s0. by_path example_session (obg_rel_path example_session ''admin'' gone_placeholder) s0
      = (Inl ?e, [])"
    by (simp add: as_list_def example_response_def)
  have h1: "is_error example_session (status_code (example_response 404 ''''))"
    by code_simp
  have h2: "\<not> is_error example_session (status_code (example_response 207 ''<error>''))
      \<and> status_code (example_response 207 ''<error>'') = 207
      \<and> text' (example_response 207 ''<error>'') \<noteq> []
      \<and> error_payload (xmltodict_parse example_session (text' (example_response 207 ''<error>'')))
          = Some (''Sabre_DAV_Exception_BadRequest'', ''Invalid'' @ [CHR 0x0A] @ ''request'')"
    by code_simp
  have h3: "\<not> is_error example_session (status_code (example_response 207 ''<docs>''))
      \<and> status_code (example_response 207 ''<docs>'') = 207
      \<and> text' (example_response 207 ''<docs>'') \<noteq> []
      \<and> error_payload (xmltodict_parse example_session (text' (example_response 207 ''<docs>'')))
          = None"
    by code_simp
  have e207: "\<not> is_error example_session 207"
    by code_simp
  have e404: "is_error example_session 404"
    by code_simp
  have h4: "lf_parse_webdav_records example_session (example_response 404 '''') ''admin''
        ''list: admin'' False []
      = (Inl (NextcloudException (Some 404) ''Not Found'' ''list: admin''), [])"
    by code_simp
  from decoder_rejects_C4
         [of example_session "example_response 404 ''''" "''admin''" "''list: admin''" "[]"]
       decoder_rejects_C4
         [of example_session "example_response 207 ''<error>''" "''admin''" "''list: admin''"
             "[]" "''Sabre_DAV_Exception_BadRequest''"
             "''Invalid'' @ [CHR 0x0A] @ ''request''" True]
       decoder_rejects_C4
         [of example_session "example_response 207 ''<docs>''" "''admin''" "''list: admin''"
             "[]"]
       h1 h2 h3 h4 e207 e404 g1 g2 g4 g5
  show ?thesis
    by (simp add: example_response_def)
qed

subsection \<open>C9: makedirs\<close>

text \<open>
  C9. \<^verbatim>\<open>makedirs\<close> sends one \<^verbatim>\<open>MKCOL\<close> per part of the path, for the part joined to the
  parts before it, from the root to the leaf, until a create is refused; the requests
  are those seen by the logging transport, which changes neither the result nor the
  platform state. A create is refused when its status code indicates failure, except
  for 405 under \<^verbatim>\<open>exist_ok=True\<close>: the call succeeds exactly when no create is
  refused, and it fails at the first refused create with the remote error that carries
  the status code of it. So with \<^verbatim>\<open>exist_ok=False\<close> every failure propagates, and with
  \<^verbatim>\<open>exist_ok=True\<close> every failure but 405 does. On a platform where an accepted create
  leaves the collection present, no create removes a collection, and the create of a
  present collection is answered with 405 (or accepted), a call with
  \<^verbatim>\<open>exist_ok=True\<close> that succeeds is followed by a second call that succeeds.
\<close>

theorem makedirs_C9:
  "(makedirs (logged sess) pth exist_ok (s, []) = (r, (s', requests)) \<longrightarrow>
      fst (makedirs sess pth exist_ok s) = r \<and> snd (makedirs sess pth exist_ok s) = s'
      \<and> map (fst \<circ> snd) requests
          = take (length requests)
              (map (dav_get_obj_path (session_user sess))
                 (cumulative_paths '''' (path_parts pth)))
      \<and> (\<forall>x \<in> set requests. fst x = ''MKCOL'')
      \<and> (r = Inr () \<longrightarrow> length requests = length (path_parts pth))
      \<and> (r = Inr () \<longleftrightarrow>
           (\<forall>x \<in> set requests.
              \<not> is_error sess (snd (snd x)) \<or> (exist_ok \<and> snd (snd x) = 405)))
      \<and> (\<forall>e. r = Inl e \<longrightarrow>
            requests \<noteq> []
            \<and> (\<forall>x \<in> set (butlast requests).
                  \<not> is_error sess (snd (snd x)) \<or> (exist_ok \<and> snd (snd x) = 405))
            \<and> is_error sess (snd (snd (last requests)))
            \<and> \<not> (exist_ok \<and> snd (snd (last requests)) = 405)
            \<and> (\<exists>reason req_info.
                  e = NextcloudException (Some (snd (snd (last requests)))) reason req_info)))
   \<and> ((\<forall>s q. \<not> is_error sess (status_code (fst (dav sess s ''MKCOL'' q None [])))
                \<or> status_code (fst (dav sess s ''MKCOL'' q None [])) = 405 \<longrightarrow>
              present (snd (dav sess s ''MKCOL'' q None [])) q)
        \<and> (\<forall>s q x. present s x \<longrightarrow> present (snd (dav sess s ''MKCOL'' q None [])) x)
        \<and> (\<forall>s q. present s q \<longrightarrow>
              \<not> is_error sess (status_code (fst (dav sess s ''MKCOL'' q None [])))
              \<or> status_code (fst (dav sess s ''MKCOL'' q None [])) = 405)
        \<and> makedirs sess pth True s0 = (Inr (), s1)
      \<longrightarrow> fst (makedirs sess pth True s1) = Inr ())"
proof (intro conjI impI)
  assume a: "makedirs (logged sess) pth exist_ok (s, []) = (r, (s', requests))"
  from makedirs_loop_logged_same [of sess exist_ok "''''" "path_parts pth" s "[]"] a
  show "fst (makedirs sess pth exist_ok s) = r" and "snd (makedirs sess pth exist_ok s) = s'"
    by (simp_all add: makedirs_def)
  from a have "makedirs_loop (logged sess) exist_ok '''' (path_parts pth) (s, [])
      = (r, (s', requests))"
    by (simp add: makedirs_def)
  from makedirs_loop_trace [OF this]
  have t: "map (fst \<circ> snd) requests
          = take (length requests)
              (map (dav_get_obj_path (session_user sess))
                 (cumulative_paths '''' (path_parts pth)))"
    "\<forall>x \<in> set requests. fst x = ''MKCOL''"
    "r = Inr () \<longrightarrow> length requests = length (path_parts pth)
       \<and> (\<forall>x \<in> set requests.
              \<not> is_error sess (snd (snd x)) \<or> (exist_ok \<and> snd (snd x) = 405))"
    "\<forall>e. r = Inl e \<longrightarrow>
            requests \<noteq> []
            \<and> (\<forall>x \<in> set (butlast requests).
                  \<not> is_error sess (snd (snd x)) \<or> (exist_ok \<and> snd (snd x) = 405))
            \<and> is_error sess (snd (snd (last requests)))
            \<and> \<not> (exist_ok \<and> snd (snd (last requests)) = 405)
            \<and> (\<exists>reason req_info.
                  e = NextcloudException (Some (snd (snd (last requests)))) reason req_info)"
    by auto
  from t(1) show "map (fst \<circ> snd) requests
          = take (length requests)
              (map (dav_get_obj_path (session_user sess))
                 (cumulative_paths '''' (path_parts pth)))" .
  from t(2) show "\<forall>x \<in> set requests. fst x = ''MKCOL''" .
  from t(3) show "length requests = length (path_parts pth)" if "r = Inr ()"
    using that by simp
  from t(4) show "\<forall>e. r = Inl e \<longrightarrow>
            requests \<noteq> []
            \<and> (\<forall>x \<in> set (butlast requests).
                  \<not> is_error sess (snd (snd x)) \<or> (exist_ok \<and> snd (snd x) = 405))
            \<and> is_error sess (snd (snd (last requests)))
            \<and> \<not> (exist_ok \<and> snd (snd (last requests)) = 405)
            \<and> (\<exists>reason req_info.
                  e = NextcloudException (Some (snd (snd (last requests)))) reason req_info)" .
  show "r = Inr () \<longleftrightarrow>
           (\<forall>x \<in> set requests.
              \<not> is_error sess (snd (snd x)) \<or> (exist_ok \<and> snd (snd x) = 405))"
  proof
    assume "r = Inr ()"
    with t(3) show "\<forall>x \<in> set requests.
              \<not> is_error sess (snd (snd x)) \<or> (exist_ok \<and> snd (snd x) = 405)"
      by simp
  next
    assume all: "\<forall>x \<in> set requests.
              \<not> is_error sess (snd (snd x)) \<or> (exist_ok \<and> snd (snd x) = 405)"
    show "r = Inr ()"
    proof (cases r)
      case (Inl e)
      with t(4) have "requests \<noteq> []" and "is_error sess (snd (snd (last requests)))"
        and "\<not> (exist_ok \<and> snd (snd (last requests)) = 405)"
        by simp_all
      moreover from \<open>requests \<noteq> []\<close> have "last requests \<in> set requests"
        by simp
      ultimately show ?thesis
        using all by blast
    next
      case (Inr u)
      then show ?thesis by simp
    qed
  qed
next
  assume b: "(\<forall>s q. \<not> is_error sess (status_code (fst (dav sess s ''MKCOL'' q None [])))
                \<or> status_code (fst (dav sess s ''MKCOL'' q None [])) = 405 \<longrightarrow>
              present (snd (dav sess s ''MKCOL'' q None [])) q)
        \<and> (\<forall>s q x. present s x \<longrightarrow> present (snd (dav sess s ''MKCOL'' q None [])) x)
        \<and> (\<forall>s q. present s q \<longrightarrow>
              \<not> is_error sess (status_code (fst (dav sess s ''MKCOL'' q None [])))
              \<or> status_code (fst (dav sess s ''MKCOL'' q None [])) = 405)
        \<and> makedirs sess pth True s0 = (Inr (), s1)"
  then have made: "\<forall>s q. \<not> is_error sess (status_code (fst (dav sess s ''MKCOL'' q None [])))
                \<or> status_code (fst (dav sess s ''MKCOL'' q None [])) = 405 \<longrightarrow>
              present (snd (dav sess s ''MKCOL'' q None [])) q"
    and keep: "\<forall>s q x. present s x \<longrightarrow> present (snd (dav sess s ''MKCOL'' q None [])) x"
    and again: "\<forall>s q. present s q \<longrightarrow>
              \<not> is_error sess (status_code (fst (dav sess s ''MKCOL'' q None [])))
              \<or> status_code (fst (dav sess s ''MKCOL'' q None [])) = 405"
    and first: "makedirs_loop sess True '''' (path_parts pth) s0 = (Inr (), s1)"
    by (simp_all add: makedirs_def)
  from first have "fst (makedirs_loop sess True '''' (path_parts pth) s0) = Inr ()"
    by simp
  from makedirs_loop_makes_present [of sess present, OF made keep this] first
  have "\<forall>x \<in> set (cumulative_paths '''' (path_parts pth)).
          present s1 (dav_get_obj_path (session_user sess) x)"
    by simp
  from makedirs_loop_on_present [of present sess, OF again keep this]
  show "fst (makedirs sess pth True s1) = Inr ()"
    by (simp add: makedirs_def)
qed

theorem makedirs_C9_witness:
  "cumulative_paths '''' (path_parts ''a/b/c'') = [''a'', ''a/b'', ''a/b/c'']
   \<and> makedirs (logged example_session) ''a/b/c'' True ([], [])
      = (Inr (), ([''/files/admin/a'', ''/files/admin/a/b'', ''/files/admin/a/b/c''],
                  [(''MKCOL'', ''/files/admin/a'', 201), (''MKCOL'', ''/files/admin/a/b'', 201),
                   (''MKCOL'', ''/files/admin/a/b/c'', 201)]))
   \<and> makedirs example_session ''a/b/c'' True []
      = (Inr (), [''/files/admin/a'', ''/files/admin/a/b'', ''/files/admin/a/b/c''])
   \<and> makedirs (logged example_session) ''a/b/c'' True
        ([''/files/admin/a'', ''/files/admin/a/b'', ''/files/admin/a/b/c''], [])
      = (Inr (), ([''/files/admin/a'', ''/files/admin/a/b'', ''/files/admin/a/b/c''],
                  [(''MKCOL'', ''/files/admin/a'', 405), (''MKCOL'', ''/files/admin/a/b'', 405),
                   (''MKCOL'', ''/files/admin/a/b/c'', 405)]))
   \<and> fst (makedirs example_session ''a/b/c'' True
             [''/files/admin/a'', ''/files/admin/a/b'', ''/files/admin/a/b/c'']) = Inr ()
   \<and> makedirs (logged example_session) ''a/b/c'' False
        ([''/files/admin/a'', ''/files/admin/a/b'', ''/files/admin/a/b/c''], [])
      = (Inl (NextcloudException (Some 405) ''Method Not Allowed''
                ''mkdir: user=admin, path=a''),
         ([''/files/admin/a'', ''/files/admin/a/b'', ''/files/admin/a/b/c''],
          [(''MKCOL'', ''/files/admin/a'', 405)]))
   \<and> is_error example_session 405
   \<and> \<not> is_error example_session 201"
proof -
  let ?dirs = "[''/files/admin/a'', ''/files/admin/a/b'', ''/files/admin/a/b/c'']"
  let ?present = "\<lambda>(s :: string list) q. q \<in> set s"
  have c: "cumulative_paths '''' (path_parts ''a/b/c'') = [''a'', ''a/b'', ''a/b/c'']"
    by code_simp
  have h1: "makedirs (logged example_session) ''a/b/c'' True ([], [])
      = (Inr (), (?dirs,
                  [(''MKCOL'', ''/files/admin/a'', 201), (''MKCOL'', ''/files/admin/a/b'', 201),
                   (''MKCOL'', ''/files/admin/a/b/c'', 201)]))"
    by code_simp
  have h2: "makedirs (logged example_session) ''a/b/c'' True (?dirs, [])
      = (Inr (), (?dirs,
                  [(''MKCOL'', ''/files/admin/a'', 405), (''MKCOL'', ''/files/admin/a/b'', 405),
                   (''MKCOL'', ''/files/admin/a/b/c'', 405)]))"
    by code_simp
  have h3: "makedirs (logged example_session) ''a/b/c'' False (?dirs, [])
      = (Inl (NextcloudException (Some 405) ''Method Not Allowed''
                ''mkdir: user=admin, path=a''),
         (?dirs, [(''MKCOL'', ''/files/admin/a'', 405)]))"
    by code_simp
  have h4: "makedirs example_session ''a/b/c'' True [] = (Inr (), ?dirs)"
    by code_simp
  have e: "is_error example_session 405" "\<not> is_error example_session 201"
    by code_simp+
  have d: "dav example_session = example_dav"
    by (simp add: example_session_def)
  have p1: "\<forall>s q. \<not> is_error example_session
                     (status_code (fst (dav example_session s ''MKCOL'' q None [])))
                \<or> status_code (fst (dav example_session s ''MKCOL'' q None [])) = 405 \<longrightarrow>
              ?present (snd (dav example_session s ''MKCOL'' q None [])) q"
    by (simp add: d example_dav_def)
  have p2: "\<forall>s q x. ?present s x \<longrightarrow> ?present (snd (dav example_session s ''MKCOL'' q None [])) x"
    by (simp add: d example_dav_def)
  have p3: "\<forall>s q. ?present s q \<longrightarrow>
              \<not> is_error example_session
                   (status_code (fst (dav example_session s ''MKCOL'' q None [])))
              \<or> status_code (fst (dav example_session s ''MKCOL'' q None [])) = 405"
    by (simp add: d example_dav_def example_response_def)
  from makedirs_C9 [of example_session "''a/b/c''" True "[]" "Inr ()" ?dirs
                       "[(''MKCOL'', ''/files/admin/a'', 201), (''MKCOL'', ''/files/admin/a/b'', 201),
                         (''MKCOL'', ''/files/admin/a/b/c'', 201)]" ?present "[]" ?dirs]
       h1 h4 p1 p2 p3
  have twice: "fst (makedirs example_session ''a/b/c'' True ?dirs) = Inr ()"
    by blast
  from c h1 h2 h3 h4 e twice show ?thesis
    by simp
qed

end
